theory Spec2Isabelle
  imports Main
begin

section \<open>Strings and platform values\<close>

text \<open>
  JavaScript strings are modelled as HOL strings (lists of 8-bit characters), so the
  model speaks about text in the Latin-1 range. The white space that \<open>String.trim\<close>
  removes is, in that range: tab, line feed, vertical tab, form feed, carriage return,
  space and the no-break space.
\<close>

definition js_space :: "char \<Rightarrow> bool" where
  "js_space c = (of_char c \<in> {9::nat, 10, 11, 12, 13, 32, 160})"

definition trim :: "string \<Rightarrow> string" where
  "trim s = rev (dropWhile js_space (rev (dropWhile js_space s)))"

text \<open>\<open>body.split("\n")\<close>: the pieces between line feeds; always at least one piece.\<close>

fun split_lf :: "string \<Rightarrow> string list" where
  "split_lf [] = [[]]"
| "split_lf (c # cs) =
     (if c = CHR 0x0A then [] # split_lf cs
      else (case split_lf cs of [] \<Rightarrow> [[c]] | l # ls \<Rightarrow> (c # l) # ls))"

definition is_digit :: "char \<Rightarrow> bool" where
  "is_digit c = (c \<in> set ''0123456789'')"

definition digit_val :: "char \<Rightarrow> nat" where
  "digit_val c = of_char c - 48"

text \<open>\<open>parseInt(s, 10)\<close> on a string of decimal digits, most significant first.\<close>

definition digits_val :: "string \<Rightarrow> nat" where
  "digits_val ds = foldl (\<lambda>n c. 10 * n + digit_val c) 0 ds"

text \<open>
  \<open>toUpperCase\<close> on the ASCII letters. No other character of the modelled range
  becomes an ASCII letter that occurs in \<open>GET\<close> or \<open>HTTP\<close>.
\<close>

definition upper_char :: "char \<Rightarrow> char" where
  "upper_char c =
     (if 97 \<le> (of_char c :: nat) \<and> (of_char c :: nat) \<le> 122
      then char_of ((of_char c :: nat) - 32) else c)"

definition toUpperCase :: "string \<Rightarrow> string" where
  "toUpperCase s = map upper_char s"

text \<open>
  The platform's \<open>Response\<close>: its status, status text, headers (name and value pairs)
  and body (\<open>None\<close> is the null body).
\<close>

type_synonym headers = "(string \<times> string) list"

record response =
  status :: nat
  statusText :: string
  headers :: headers
  body :: "string option"

section \<open>batch.ts: SPBatch.ParseResponse\<close>

text \<open>
  Everything that the source throws or rejects with. \<open>TypeError_null\<close> is the
  engine's own error on reading a property of \<open>null\<close> or \<open>undefined\<close>;
  \<open>RangeError_status\<close> and \<open>TypeError_Response\<close> are the errors of the platform's
  \<open>Response\<close> constructor;
  \<open>Rejected_with\<close> is the value with which the transport has rejected and
  \<open>Parser_failed\<close> a failure of a collaborator's parser; the others are the \<open>Error\<close>
  values the source constructs, with the values that their messages interpolate.
\<close>

datatype error =
    Invalid_response nat
  | Invalid_status nat
  | Unexpected_end_of_input
  | TypeError_null
  | Different_fetch_client nat string string
  | Not_absolute_url nat string string
  | Could_not_match_responses
  | Retry_count_exceeded nat nat string
  | Rejected_with response
  | Parser_failed string
  | RangeError_status
  | TypeError_Response

text \<open>
  The constructor of the platform's \<open>Response\<close>, called with a body (\<open>None\<close> when
  there is none) and the \<open>status\<close> and \<open>statusText\<close> of the init dictionary (\<open>None\<close>
  where the dictionary gives none: then the status is 200 and the status text empty). A
  given status is taken as an unsigned 16-bit number. The constructor throws a
  \<open>RangeError\<close> for a status outside 200 to 599, and a \<open>TypeError\<close> for a status text
  that is not a reason phrase (tab, space, the visible ASCII characters and the
  characters from 128 on) and for a body that is given with a null body status (101,
  103, 204, 205, 304), in this order. The headers that the constructor derives from the
  body are not modelled, and a status is a natural number, which is what \<open>parseInt\<close>
  reads from decimal digits below \<open>2^53\<close>.
\<close>

definition null_body_status :: "nat \<Rightarrow> bool" where
  "null_body_status st = (st = 101 \<or> st = 103 \<or> st = 204 \<or> st = 205 \<or> st = 304)"

definition reason_phrase_char :: "char \<Rightarrow> bool" where
  "reason_phrase_char c =
     ((of_char c :: nat) = 9 \<or> (32 \<le> (of_char c :: nat) \<and> (of_char c :: nat) \<le> 126)
      \<or> 128 \<le> (of_char c :: nat))"

definition reason_phrase :: "string \<Rightarrow> bool" where
  "reason_phrase t = (filter (\<lambda>c. \<not> reason_phrase_char c) t = [])"

definition new_Response :: "string option \<Rightarrow> nat option \<Rightarrow> string option \<Rightarrow> error + response" where
  "new_Response b st tx =
     (let s = (case st of None \<Rightarrow> 200 | Some n \<Rightarrow> n mod 65536);
          t = (case tx of None \<Rightarrow> [] | Some t \<Rightarrow> t)
      in if s < 200 \<or> 599 < s then Inl RangeError_status
         else if \<not> reason_phrase t then Inl TypeError_Response
         else if b \<noteq> None \<and> null_body_status s then Inl TypeError_Response
         else Inr \<lparr>status = s, statusText = t, headers = [], body = b\<rparr>)"

text \<open>
  \<open>statusRegExp.exec(line)\<close> for \<open>^HTTP/[0-9.]+ +([0-9]+) +(.*)\<close> with flag \<open>i\<close>.
  Every quantifier of the pattern is followed by a character class disjoint from its
  own (or by \<open>.*\<close>), so the greedy choice is the only match: the longest run of each
  class. The dot stops at a line terminator (line feed, carriage return). The result is
  \<open>None\<close> for JavaScript's \<open>null\<close>, and otherwise the array of the whole match and
  the two groups.
\<close>

definition line_terminator :: "char \<Rightarrow> bool" where
  "line_terminator c = (c = CHR 0x0A \<or> c = CHR 0x0D)"

definition statusRegExp_exec :: "string \<Rightarrow> string list option" where
  "statusRegExp_exec line =
     (if toUpperCase (take 5 line) \<noteq> ''HTTP/'' then None
      else let r1 = drop 5 line;
               ver = takeWhile (\<lambda>c. is_digit c \<or> c = CHR ''.'') r1;
               r2 = dropWhile (\<lambda>c. is_digit c \<or> c = CHR ''.'') r1;
               sp1 = takeWhile (\<lambda>c. c = CHR '' '') r2;
               r3 = dropWhile (\<lambda>c. c = CHR '' '') r2;
               code = takeWhile is_digit r3;
               r4 = dropWhile is_digit r3;
               sp2 = takeWhile (\<lambda>c. c = CHR '' '') r4;
               r5 = dropWhile (\<lambda>c. c = CHR '' '') r4;
               reason = takeWhile (\<lambda>c. \<not> line_terminator c) r5
           in if ver = [] \<or> sp1 = [] \<or> code = [] \<or> sp2 = [] then None
              else Some [take 5 line @ ver @ sp1 @ code @ sp2 @ reason, code, reason])"

datatype pstate = Batch | BatchHeaders | Status | StatusHeaders | Body

text \<open>
  The variables of the loop: \<open>state\<close>, \<open>status\<close>, \<open>statusText\<close> (both undefined
  until the first status line) and \<open>responses\<close>.
\<close>

record parser =
  pstate :: pstate
  pstatus :: "nat option"
  pstatusText :: "string option"
  responses :: "response list"

definition header :: string where
  "header = ''--batchresponse_''"

text \<open>One iteration of the loop: the \<open>switch\<close> on the state, at line \<open>i\<close>.\<close>

definition parse_line :: "nat \<Rightarrow> string \<Rightarrow> parser \<Rightarrow> error + parser" where
  "parse_line i line p =
     (case pstate p of
        Batch \<Rightarrow>
          if take (length header) line = header then Inr (p\<lparr>pstate := BatchHeaders\<rparr>)
          else if trim line \<noteq> [] then Inl (Invalid_response i)
          else Inr p
      | BatchHeaders \<Rightarrow>
          if trim line = [] then Inr (p\<lparr>pstate := Status\<rparr>) else Inr p
      | Status \<Rightarrow>
          (case statusRegExp_exec line of
             None \<Rightarrow> Inl TypeError_null
           | Some parts \<Rightarrow>
               if length parts \<noteq> 3 then Inl (Invalid_status i)
               else Inr (p\<lparr>pstatus := Some (digits_val (parts ! 1)),
                           pstatusText := Some (parts ! 2),
                           pstate := StatusHeaders\<rparr>))
      | StatusHeaders \<Rightarrow>
          if trim line = [] then Inr (p\<lparr>pstate := Body\<rparr>) else Inr p
      | Body \<Rightarrow>
          (case (if pstatus p = Some 204 then new_Response None None None
                 else new_Response (Some line) (pstatus p) (pstatusText p)) of
             Inl err \<Rightarrow> Inl err
           | Inr r \<Rightarrow> Inr (p\<lparr>responses := responses p @ [r], pstate := Batch\<rparr>)))"

fun parse_lines :: "nat \<Rightarrow> string list \<Rightarrow> parser \<Rightarrow> error + parser" where
  "parse_lines i [] p = Inr p"
| "parse_lines i (line # rest) p =
     (case parse_line i line p of
        Inl e \<Rightarrow> Inl e
      | Inr p' \<Rightarrow> parse_lines (Suc i) rest p')"

definition parser_init :: parser where
  "parser_init = \<lparr>pstate = Batch, pstatus = None, pstatusText = None, responses = []\<rparr>"

definition ParseResponse :: "string \<Rightarrow> error + response list" where
  "ParseResponse text =
     (case parse_lines 0 (split_lf text) parser_init of
        Inl e \<Rightarrow> Inl e
      | Inr p \<Rightarrow>
          if pstate p \<noteq> Status then Inl Unexpected_end_of_input
          else Inr (responses p))"

section \<open>sphttpclient.ts: headers, options and the world\<close>

text \<open>
  A \<open>Headers\<close> object is the list of the name and value pairs appended to it; names
  compare without regard to case. \<open>get\<close> joins the values of one name with a comma
  and a space, and is null (\<open>None\<close>) exactly when \<open>has\<close> is false.
\<close>

definition same_name :: "string \<Rightarrow> string \<Rightarrow> bool" where
  "same_name a b = (toUpperCase a = toUpperCase b)"

definition headers_has :: "headers \<Rightarrow> string \<Rightarrow> bool" where
  "headers_has h n = (filter (\<lambda>(k, v). same_name k n) h \<noteq> [])"

fun join_values :: "string list \<Rightarrow> string" where
  "join_values [] = []"
| "join_values [v] = v"
| "join_values (v # vs) = v @ '', '' @ join_values vs"

definition headers_get :: "headers \<Rightarrow> string \<Rightarrow> string option" where
  "headers_get h n =
     (case map snd (filter (\<lambda>(k, v). same_name k n) h) of
        [] \<Rightarrow> None
      | vs \<Rightarrow> Some (join_values vs))"

definition headers_append :: "headers \<Rightarrow> string \<Rightarrow> string \<Rightarrow> headers" where
  "headers_append h n v = h @ [(n, v)]"

definition headers_set :: "headers \<Rightarrow> string \<Rightarrow> string \<Rightarrow> headers" where
  "headers_set h n v = filter (\<lambda>(k, w). \<not> same_name k n) h @ [(n, v)]"

text \<open>
  Modelled from the spec: \<open>mergeHeaders\<close> of the package \<open>@pnp/common\<close> is not under
  \<open>src/\<close>; it is the spec's generic header-merging utility, which adds every header of
  the source to the target.
\<close>

definition mergeHeaders :: "headers \<Rightarrow> headers \<Rightarrow> headers" where
  "mergeHeaders target source = target @ source"

text \<open>
  \<open>parseInt(s, 10)\<close>: leading white space, an optional sign, then decimal digits;
  \<open>None\<close> is \<open>NaN\<close>.
\<close>

definition parseInt :: "string \<Rightarrow> int option" where
  "parseInt s =
     (let t = dropWhile js_space s;
          neg = (take 1 t = ''-'');
          u = (if take 1 t = ''-'' \<or> take 1 t = ''+'' then drop 1 t else t);
          ds = takeWhile is_digit u
      in if ds = [] then None
         else Some (if neg then - int (digits_val ds) else int (digits_val ds)))"

text \<open>Fetch clients (\<open>IHttpClientImpl\<close> objects) are compared by identity only.\<close>

type_synonym client = nat

text \<open>\<open>IFetchOptions\<close>; an absent property is \<open>None\<close>, absent headers are the empty list.\<close>

record fetch_options =
  omethod :: "string option"
  oheaders :: headers
  obody :: "string option"
  cache :: "string option"
  credentials :: "string option"
  fetchClient :: "client option"

definition no_options :: fetch_options where
  "no_options = \<lparr>omethod = None, oheaders = [], obody = None, cache = None,
                  credentials = None, fetchClient = None\<rparr>"

record cached_digest =
  expiration :: int
  dvalue :: string

text \<open>
  What the underlying transport does with one call: its promise fulfils with a response
  or rejects; the source reads the value of a rejection as a response.
\<close>

datatype outcome = Fulfil response | Reject response

text \<open>
  The collaborators that are not under \<open>src/\<close>, as parameters: the global header set
  and the transport factory of \<open>SPRuntimeConfig\<close>, the URL helpers, the client tag, the
  iteration order of a \<open>Headers\<close> object, the parser of the context information (token
  value and lifetime in seconds), the identifiers that \<open>getGUID\<close> returns, the readings
  of the clock in milliseconds and the outcomes of the transport, each in call order.
\<close>

record env =
  globalHeaders :: headers
  fetchClientFactory :: client
  combine :: "string \<Rightarrow> string \<Rightarrow> string"
  extractWebUrl :: "string \<Rightarrow> string"
  isUrlAbsolute :: "string \<Rightarrow> bool"
  toAbsoluteUrl :: "string \<Rightarrow> string"
  getClientTag :: "headers \<Rightarrow> string"
  forEach :: "headers \<Rightarrow> (string \<times> string) list"
  parseContextInfo :: "response \<Rightarrow> error + (string \<times> int)"
  guids :: "nat \<Rightarrow> string"
  clock :: "nat \<Rightarrow> int"
  transport :: "nat \<Rightarrow> outcome"

text \<open>A settlement of a pending request of a batch, and the start of its parser.\<close>

datatype event = Parsing nat | Resolve nat string | Reject_request nat error

text \<open>
  The mutable state: the digest cache (per fetch client, per web URL), the calls made to
  the transport, the delays handed to \<open>setTimeout\<close> (\<open>None\<close> is \<open>NaN\<close>), the number
  of clock readings and of identifiers taken, the default fetch client of the
  \<open>SPHttpClient\<close> and the events of the pending requests.
\<close>

record world =
  digests :: "client \<rightharpoonup> (string \<rightharpoonup> cached_digest)"
  sent :: "(client \<times> string \<times> fetch_options) list"
  timers :: "int option list"
  ticks :: nat
  guid_count :: nat
  defaultFetchClient :: "client option"
  events :: "event list"

section \<open>sphttpclient.ts: SPHttpClient.fetchRaw\<close>

record retry_ctx =
  attempts :: nat
  delay :: int
  retryCount :: nat

datatype retry_action = Give_up error | Set_timeout "int option"

text \<open>\<open>setRetry\<close>: the delay, the counters, then reject or schedule the next attempt.\<close>

definition setRetry :: "retry_ctx \<Rightarrow> response \<Rightarrow> retry_ctx \<times> retry_action" where
  "setRetry ctx r =
     (let (d, ctx1) =
            (if headers_has (headers r) ''Retry-After''
             then (case headers_get (headers r) ''Retry-After'' of
                     None \<Rightarrow> (None, ctx)
                   | Some v \<Rightarrow> (map_option (\<lambda>n. n * 1000) (parseInt v), ctx))
             else (Some (delay ctx), ctx\<lparr>delay := delay ctx * 2\<rparr>));
          ctx2 = ctx1\<lparr>attempts := attempts ctx1 + 1\<rparr>
      in if retryCount ctx2 \<le> attempts ctx2
         then (ctx2, Give_up (Retry_count_exceeded (retryCount ctx2) (status r) (statusText r)))
         else (ctx2, Set_timeout d))"

definition getFetchClient :: "env \<Rightarrow> fetch_options \<Rightarrow> world \<Rightarrow> client \<times> world" where
  "getFetchClient e options w =
     (case fetchClient options of
        Some c \<Rightarrow> (c, w)
      | None \<Rightarrow>
          (case defaultFetchClient w of
             Some c \<Rightarrow> (c, w)
           | None \<Rightarrow> (fetchClientFactory e, w\<lparr>defaultFetchClient := Some (fetchClientFactory e)\<rparr>)))"

text \<open>The result of a promise of a response.\<close>

datatype settled = Resolved response | Rejected error

text \<open>
  One attempt: take the fetch client, call the transport (the call is logged, its outcome
  is the next of the environment) and decide. \<open>Inl\<close> is the settled promise, \<open>Inr\<close> the
  context for the attempt that \<open>setTimeout\<close> has scheduled.
\<close>

definition attempt ::
  "env \<Rightarrow> string \<Rightarrow> fetch_options \<Rightarrow> retry_ctx \<Rightarrow> world \<Rightarrow> (settled + retry_ctx) \<times> world" where
  "attempt e url options ctx w =
     (let (c, w1) = getFetchClient e options w;
          out = transport e (length (sent w1));
          w2 = w1\<lparr>sent := sent w1 @ [(c, url, options)]\<rparr>;
          again = (\<lambda>r. case setRetry ctx r of
                     (ctx', Give_up err) \<Rightarrow> (Inl (Rejected err), w2)
                   | (ctx', Set_timeout d) \<Rightarrow> (Inr ctx', w2\<lparr>timers := timers w2 @ [d]\<rparr>))
      in case out of
           Fulfil r \<Rightarrow> if status r = 429 then again r else (Inl (Resolved r), w2)
         | Reject r \<Rightarrow>
             if status r = 503 \<or> status r = 504 then again r
             else (Inl (Rejected (Rejected_with r)), w2))"

text \<open>The attempts of one call, each after the delay of the one before.\<close>

function retry :: "env \<Rightarrow> string \<Rightarrow> fetch_options \<Rightarrow> retry_ctx \<Rightarrow> world \<Rightarrow> settled \<times> world" where
  "retry e url options ctx w =
     (case attempt e url options ctx w of
        (Inl res, w') \<Rightarrow> (res, w')
      | (Inr ctx', w') \<Rightarrow> retry e url options ctx' w')"
  by pat_completeness auto

text \<open>An attempt is scheduled only while the budget is not used up, so the loop ends.\<close>

lemma setRetry_budget:
  "setRetry ctx r = (ctx', Set_timeout d) \<Longrightarrow>
     retryCount ctx' = retryCount ctx \<and> attempts ctx' = Suc (attempts ctx) \<and>
     attempts ctx' < retryCount ctx'"
  by (auto simp: setRetry_def Let_def split: if_splits option.splits)

lemma attempt_budget:
  "attempt e url options ctx w = (Inr ctx', w') \<Longrightarrow>
     retryCount ctx' - attempts ctx' < retryCount ctx - attempts ctx"
  by (auto simp: attempt_def Let_def
      split: prod.splits outcome.splits if_splits retry_action.splits
      dest!: setRetry_budget)

termination retry
  by (relation "measure (\<lambda>(e, url, options, ctx, w). retryCount ctx - attempts ctx)")
     (auto dest: attempt_budget [OF sym])

definition retry_ctx_init :: retry_ctx where
  "retry_ctx_init = \<lparr>attempts = 0, delay = 100, retryCount = 7\<rparr>"

definition fetchRaw :: "env \<Rightarrow> string \<Rightarrow> fetch_options \<Rightarrow> world \<Rightarrow> settled \<times> world" where
  "fetchRaw e url options w =
     retry e url (options\<lparr>oheaders := mergeHeaders [] (oheaders options)\<rparr>) retry_ctx_init w"

section \<open>sphttpclient.ts: the digest cache\<close>

text \<open>
  Modelled from the spec: \<open>dateAdd\<close> of the package \<open>@pnp/common\<close> is not under \<open>src/\<close>;
  the spec stores \<open>expiresAt = now + lifetime\<close>, the lifetime in seconds. Dates are
  milliseconds.
\<close>

definition dateAdd_second :: "int \<Rightarrow> int \<Rightarrow> int" where
  "dateAdd_second date units = date + units * 1000"

text \<open>
  Modelled from the spec: \<open>assign\<close> of the package \<open>@pnp/common\<close> is not under \<open>src/\<close>.
  With \<open>noOverwrite\<close> it gives the target the properties of the source that the target
  does not have yet (property names compare exactly).
\<close>

definition assign_noOverwrite :: "headers \<Rightarrow> headers \<Rightarrow> headers" where
  "assign_noOverwrite target source =
     target @ filter (\<lambda>(k, v). k \<notin> set (map fst target)) source"

definition getCachedDigests :: "client \<Rightarrow> world \<Rightarrow> (string \<rightharpoonup> cached_digest) \<times> world" where
  "getCachedDigests c w =
     (case digests w c of
        Some cachedMap \<Rightarrow> (cachedMap, w)
      | None \<Rightarrow> (Map.empty, w\<lparr>digests := (digests w)(c \<mapsto> Map.empty)\<rparr>))"

text \<open>\<open>new Date()\<close>: the next reading of the clock.\<close>

definition new_Date :: "env \<Rightarrow> world \<Rightarrow> int \<times> world" where
  "new_Date e w = (clock e (ticks w), w\<lparr>ticks := Suc (ticks w)\<rparr>)"

definition contextinfo_options :: "env \<Rightarrow> client \<Rightarrow> fetch_options" where
  "contextinfo_options e c =
     \<lparr>omethod = Some ''POST'',
      oheaders = assign_noOverwrite
        [(''Accept'', ''application/json;odata=verbose''),
         (''Content-Type'', ''application/json;odata=verbose;charset=utf-8'')]
        (globalHeaders e),
      obody = None, cache = Some ''no-cache'', credentials = Some ''same-origin'',
      fetchClient = Some c\<rparr>"

text \<open>
  The part of the function after the cache lookup: the request to the context
  information endpoint through \<open>fetchRaw\<close>, the parse, and the new entry in the map
  \<open>ds\<close> of the fetch client (the map that \<open>getCachedDigests\<close> returned).
\<close>

definition refreshDigest ::
  "env \<Rightarrow> client \<Rightarrow> string \<Rightarrow> (string \<rightharpoonup> cached_digest) \<Rightarrow> world \<Rightarrow> (error + string) \<times> world" where
  "refreshDigest e c webUrl ds w =
     (case fetchRaw e (combine e webUrl ''/_api/contextinfo'') (contextinfo_options e c) w of
        (Rejected err, w1) \<Rightarrow> (Inl err, w1)
      | (Resolved resp, w1) \<Rightarrow>
          (case parseContextInfo e resp of
             Inl err \<Rightarrow> (Inl err, w1)
           | Inr (v, lifetime) \<Rightarrow>
               (let (now, w2) = new_Date e w1;
                    newCachedDigest = \<lparr>expiration = dateAdd_second now lifetime, dvalue = v\<rparr>
                in (Inr (dvalue newCachedDigest),
                    w2\<lparr>digests := (digests w2)(c \<mapsto> ds(webUrl \<mapsto> newCachedDigest))\<rparr>))))"

text \<open>The function that \<open>getDigestFactory\<close> returns.\<close>

definition getDigest :: "env \<Rightarrow> client \<Rightarrow> string \<Rightarrow> world \<Rightarrow> (error + string) \<times> world" where
  "getDigest e c webUrl w =
     (let (ds, w1) = getCachedDigests c w
      in case ds webUrl of
           Some cachedDigest \<Rightarrow>
             (let (now, w2) = new_Date e w1
              in if now < expiration cachedDigest then (Inr (dvalue cachedDigest), w2)
                 else refreshDigest e c webUrl ds w2)
         | None \<Rightarrow> refreshDigest e c webUrl ds w1)"

section \<open>sphttpclient.ts: SPHttpClient.fetch\<close>

text \<open>
  The headers of a call: the global headers, then those of the call, then the defaults
  that are still missing.
\<close>

definition call_headers :: "env \<Rightarrow> fetch_options \<Rightarrow> headers" where
  "call_headers e options =
     (let h1 = mergeHeaders (mergeHeaders [] (globalHeaders e)) (oheaders options);
          h2 = (if \<not> headers_has h1 ''Accept''
                then headers_append h1 ''Accept'' ''application/json'' else h1);
          h3 = (if \<not> headers_has h2 ''Content-Type''
                then headers_append h2 ''Content-Type''
                       ''application/json;odata=verbose;charset=utf-8''
                else h2)
      in if \<not> headers_has h3 ''X-ClientService-ClientTag''
         then headers_append h3 ''X-ClientService-ClientTag''
                (take 32 (''PnPCoreJS:$$Version$$:'' @ getClientTag e h3))
         else h3)"

text \<open>\<open>opts\<close> after both calls of \<open>assign\<close>.\<close>

definition call_options :: "env \<Rightarrow> fetch_options \<Rightarrow> fetch_options" where
  "call_options e options =
     options\<lparr>cache := (case cache options of None \<Rightarrow> Some ''no-cache'' | Some c \<Rightarrow> Some c),
             credentials :=
               (case credentials options of None \<Rightarrow> Some ''same-origin'' | Some c \<Rightarrow> Some c),
             oheaders := call_headers e options\<rparr>"

text \<open>The condition under which a digest is fetched; an absent or empty method is falsy.\<close>

definition needs_digest :: "string option \<Rightarrow> headers \<Rightarrow> bool" where
  "needs_digest m h =
     (case m of
        None \<Rightarrow> False
      | Some mth \<Rightarrow>
          mth \<noteq> [] \<and> toUpperCase mth \<noteq> ''GET'' \<and> \<not> headers_has h ''X-RequestDigest''
          \<and> \<not> headers_has h ''Authorization'')"

definition fetch :: "env \<Rightarrow> string \<Rightarrow> fetch_options \<Rightarrow> world \<Rightarrow> settled \<times> world" where
  "fetch e url options w =
     (let opts = call_options e options
      in if needs_digest (omethod opts) (oheaders opts)
         then (let (c, w1) = getFetchClient e opts w
               in case getDigest e c (extractWebUrl e url) w1 of
                    (Inl err, w2) \<Rightarrow> (Rejected err, w2)
                  | (Inr digest, w2) \<Rightarrow>
                      fetchRaw e url
                        (opts\<lparr>oheaders := headers_append (oheaders opts) ''X-RequestDigest'' digest\<rparr>)
                        w2)
         else fetchRaw e url opts w)"

section \<open>batch.ts: SPBatch.executeImpl\<close>

text \<open>
  A pending request of the batch (\<open>ODataBatchRequestInfo\<close>): \<open>rparse\<close> is
  \<open>parser.parse\<close>, a value or a failure; \<open>resolve\<close> and \<open>reject\<close> are the events of
  the world. The batch has its identifier, its base URL, the fetch client of its
  options and the ordered requests.
\<close>

record batch_request =
  rid :: string
  rmethod :: string
  rurl :: string
  roptions :: fetch_options
  rparse :: "response \<Rightarrow> error + string"

record batch =
  batchId :: string
  baseUrl :: string
  bfetchClient :: "client option"
  requests :: "batch_request list"

definition LF :: string where
  "LF = [CHR 0x0A]"

definition DQ :: string where
  "DQ = [CHR 0x22]"

text \<open>
  The first loop, from index \<open>i\<close> over the requests that are left: the test reads the
  fetch client of \<open>requests[0]\<close>, the message names request \<open>i\<close>.
\<close>

fun check_fetch_clients :: "batch \<Rightarrow> nat \<Rightarrow> batch_request list \<Rightarrow> error option" where
  "check_fetch_clients b i [] = None"
| "check_fetch_clients b i (reqInfo # rest) =
     (if fetchClient (roptions (requests b ! 0)) \<noteq> bfetchClient b
      then Some (Different_fetch_client (i + 1) (rmethod reqInfo) (rurl reqInfo))
      else check_fetch_clients b (Suc i) rest)"

text \<open>The variables of the second loop.\<close>

record encoder =
  currentChangeSetId :: string
  batchBody :: "string list"

definition getGUID :: "env \<Rightarrow> world \<Rightarrow> string \<times> world" where
  "getGUID e w = (guids e (guid_count w), w\<lparr>guid_count := Suc (guid_count w)\<rparr>)"

text \<open>The boundary lines that open the part of a request.\<close>

definition open_part ::
  "env \<Rightarrow> string \<Rightarrow> batch_request \<Rightarrow> encoder \<Rightarrow> world \<Rightarrow> encoder \<times> world" where
  "open_part e bid reqInfo enc w =
     (if rmethod reqInfo = ''GET''
      then (let enc1 =
                  (if length (currentChangeSetId enc) > 0
                   then enc\<lparr>batchBody := batchBody enc @
                              [''--changeset_'' @ currentChangeSetId enc @ ''--'' @ LF @ LF],
                            currentChangeSetId := []\<rparr>
                   else enc)
            in (enc1\<lparr>batchBody := batchBody enc1 @ [''--batch_'' @ bid @ LF]\<rparr>, w))
      else (let (enc1, w1) =
                  (if length (currentChangeSetId enc) < 1
                   then (let (g, w') = getGUID e w
                         in (enc\<lparr>currentChangeSetId := g,
                                 batchBody := batchBody enc @
                                   [''--batch_'' @ bid @ LF,
                                    ''Content-Type: multipart/mixed; boundary='' @ DQ
                                      @ ''changeset_'' @ g @ DQ @ LF @ LF]\<rparr>, w'))
                   else (enc, w))
            in (enc1\<lparr>batchBody := batchBody enc1 @
                        [''--changeset_'' @ currentChangeSetId enc1 @ LF]\<rparr>, w1)))"

definition part_prefix :: "string list" where
  "part_prefix =
     [''Content-Type: application/http'' @ LF,
      ''Content-Transfer-Encoding: binary'' @ LF @ LF]"

definition request_url :: "env \<Rightarrow> string \<Rightarrow> batch_request \<Rightarrow> string" where
  "request_url e absoluteRequestUrl reqInfo =
     (if isUrlAbsolute e (rurl reqInfo) then rurl reqInfo
      else combine e absoluteRequestUrl (rurl reqInfo))"

text \<open>
  What is pushed for a request after the test of its URL: the request line (with the
  verb of an \<open>X-HTTP-Method\<close> property of a write, which is deleted from the request's
  headers), the headers in the iteration order of the platform, a blank line, the body.
\<close>

definition request_lines :: "env \<Rightarrow> string \<Rightarrow> batch_request \<Rightarrow> string list" where
  "request_lines e absoluteRequestUrl reqInfo =
     (let url = request_url e absoluteRequestUrl reqInfo;
          castHeaders = oheaders (roptions reqInfo);
          override = (if rmethod reqInfo \<noteq> ''GET'' then map_of castHeaders ''X-HTTP-Method''
                      else None);
          mth = (case override of Some m \<Rightarrow> m | None \<Rightarrow> rmethod reqInfo);
          castHeaders' = (case override of
                            Some m \<Rightarrow> filter (\<lambda>(k, v). k \<noteq> ''X-HTTP-Method'') castHeaders
                          | None \<Rightarrow> castHeaders);
          h0 = (if rmethod reqInfo \<noteq> ''GET''
                then headers_set [] ''Content-Type''
                       ''application/json;odata=verbose;charset=utf-8''
                else []);
          h1 = mergeHeaders (mergeHeaders h0 (globalHeaders e)) castHeaders';
          h2 = (if \<not> headers_has h1 ''Accept''
                then headers_append h1 ''Accept'' ''application/json'' else h1);
          h3 = (if \<not> headers_has h2 ''Content-Type''
                then headers_append h2 ''Content-Type''
                       ''application/json;odata=verbose;charset=utf-8''
                else h2);
          h4 = (if \<not> headers_has h3 ''X-ClientService-ClientTag''
                then headers_append h3 ''X-ClientService-ClientTag''
                       ''PnPCoreJS:@pnp-$$Version$$:batch''
                else h3)
      in [mth @ '' '' @ url @ '' HTTP/1.1'' @ LF]
         @ map (\<lambda>(name, v). name @ '': '' @ v @ LF) (forEach e h4)
         @ [LF]
         @ (case obody (roptions reqInfo) of
              None \<Rightarrow> []
            | Some b \<Rightarrow> if b \<noteq> [] then [b @ LF @ LF] else []))"

text \<open>One iteration of the second loop, for request \<open>i\<close>.\<close>

definition encode_request ::
  "env \<Rightarrow> string \<Rightarrow> string \<Rightarrow> nat \<Rightarrow> batch_request \<Rightarrow> encoder \<Rightarrow> world
     \<Rightarrow> (error + encoder) \<times> world" where
  "encode_request e bid absoluteRequestUrl i reqInfo enc w =
     (let (enc1, w1) = open_part e bid reqInfo enc w;
          enc2 = enc1\<lparr>batchBody := batchBody enc1 @ part_prefix\<rparr>
      in if \<not> isUrlAbsolute e (request_url e absoluteRequestUrl reqInfo)
         then (Inl (Not_absolute_url (i + 1) (rmethod reqInfo) (rurl reqInfo)), w1)
         else (Inr (enc2\<lparr>batchBody := batchBody enc2
                           @ request_lines e absoluteRequestUrl reqInfo\<rparr>), w1))"

fun encode_requests ::
  "env \<Rightarrow> string \<Rightarrow> string \<Rightarrow> nat \<Rightarrow> batch_request list \<Rightarrow> encoder \<Rightarrow> world
     \<Rightarrow> (error + encoder) \<times> world" where
  "encode_requests e bid a i [] enc w = (Inr enc, w)"
| "encode_requests e bid a i (reqInfo # rest) enc w =
     (case encode_request e bid a i reqInfo enc w of
        (Inl err, w1) \<Rightarrow> (Inl err, w1)
      | (Inr enc1, w1) \<Rightarrow> encode_requests e bid a (Suc i) rest enc1 w1)"

text \<open>After the loop: the open changeset is closed, then the batch.\<close>

definition close_batch :: "string \<Rightarrow> encoder \<Rightarrow> string list" where
  "close_batch bid enc =
     (if length (currentChangeSetId enc) > 0
      then batchBody enc @ [''--changeset_'' @ currentChangeSetId enc @ ''--'' @ LF @ LF]
      else batchBody enc)
     @ [''--batch_'' @ bid @ ''--'' @ LF]"

text \<open>The pieces of the batch body, from the empty body to the closing marker.\<close>

definition encode_batch ::
  "env \<Rightarrow> string \<Rightarrow> string \<Rightarrow> batch_request list \<Rightarrow> world \<Rightarrow> (error + string list) \<times> world" where
  "encode_batch e bid a reqs w =
     (case encode_requests e bid a 0 reqs \<lparr>currentChangeSetId = [], batchBody = []\<rparr> w of
        (Inl err, w1) \<Rightarrow> (Inl err, w1)
      | (Inr enc, w1) \<Rightarrow> (Inr (close_batch bid enc), w1))"

text \<open>
  The chain of promises over the decoded responses: for each response in turn the
  request of the same index is taken, its parser is run and the request is resolved
  with the value or rejected with the failure. Reading a property of a request that
  does not exist rejects the chain.
\<close>

fun settle :: "batch_request list \<Rightarrow> nat \<Rightarrow> response list \<Rightarrow> world \<Rightarrow> (error + unit) \<times> world" where
  "settle reqs index [] w = (Inr (), w)"
| "settle reqs index (resp # rest) w =
     (if index < length reqs
      then (let request = reqs ! index;
                w1 = w\<lparr>events := events w @ [Parsing index]\<rparr>;
                w2 = (case rparse request resp of
                        Inr v \<Rightarrow> w1\<lparr>events := events w1 @ [Resolve index v]\<rparr>
                      | Inl err \<Rightarrow> w1\<lparr>events := events w1 @ [Reject_request index err]\<rparr>)
            in settle reqs (Suc index) rest w2)
      else (Inl TypeError_null, w))"

text \<open>The end of \<open>executeImpl\<close>: the count of the responses, then the chain.\<close>

definition resolve_responses ::
  "batch_request list \<Rightarrow> response list \<Rightarrow> world \<Rightarrow> (error + unit) \<times> world" where
  "resolve_responses reqs resps w =
     (if length resps \<noteq> length reqs then (Inl Could_not_match_responses, w)
      else settle reqs 0 resps w)"

definition batch_options :: "string \<Rightarrow> string list \<Rightarrow> fetch_options" where
  "batch_options bid body_pieces =
     \<lparr>omethod = Some ''POST'',
      oheaders = [(''Content-Type'', ''multipart/mixed; boundary=batch_'' @ bid)],
      obody = Some (concat body_pieces), cache = None, credentials = None,
      fetchClient = None\<rparr>"

text \<open>
  \<open>executeImpl\<close>. The \<open>SPHttpClient\<close> is made with the fetch client of the batch as
  its default; the text of a response with the null body is empty.
\<close>

definition executeImpl :: "env \<Rightarrow> batch \<Rightarrow> world \<Rightarrow> (error + unit) \<times> world" where
  "executeImpl e b w =
     (case check_fetch_clients b 0 (requests b) of
        Some err \<Rightarrow> (Inl err, w)
      | None \<Rightarrow>
          if length (requests b) < 1 then (Inr (), w)
          else (let w0 = w\<lparr>defaultFetchClient := bfetchClient b\<rparr>;
                    absoluteRequestUrl = toAbsoluteUrl e (baseUrl b)
                in case encode_batch e (batchId b) absoluteRequestUrl (requests b) w0 of
                     (Inl err, w1) \<Rightarrow> (Inl err, w1)
                   | (Inr pieces, w1) \<Rightarrow>
                       (case fetch e (combine e absoluteRequestUrl ''/_api/$batch'')
                               (batch_options (batchId b) pieces) w1 of
                          (Rejected err, w2) \<Rightarrow> (Inl err, w2)
                        | (Resolved fetchResponse, w2) \<Rightarrow>
                            (case ParseResponse
                                    (case body fetchResponse of None \<Rightarrow> [] | Some t \<Rightarrow> t) of
                               Inl err \<Rightarrow> (Inl err, w2)
                             | Inr resps \<Rightarrow> resolve_responses (requests b) resps w2))))"

section \<open>The batch body in the words of the specification\<close>

text \<open>
  The specification's view of an encoded batch: the requests in order, every read
  (\<open>GET\<close>) a top-level part of its own, every maximal run of consecutive writes one
  changeset with an identifier of its own, the \<open>k\<close>-th changeset taking the \<open>k\<close>-th
  identifier.
\<close>

datatype batch_part = Read_part batch_request | Changeset_part string "batch_request list"

definition is_write :: "batch_request \<Rightarrow> bool" where
  "is_write r = (rmethod r \<noteq> ''GET'')"

function spec_parts :: "(nat \<Rightarrow> string) \<Rightarrow> nat \<Rightarrow> batch_request list \<Rightarrow> batch_part list" where
  "spec_parts ids k [] = []"
| "spec_parts ids k (r # rs) =
     (if is_write r
      then Changeset_part (ids k) (r # takeWhile is_write rs)
           # spec_parts ids (Suc k) (dropWhile is_write rs)
      else Read_part r # spec_parts ids k rs)"
  by pat_completeness auto
termination
  by (relation "measure (\<lambda>(ids, k, rs). length rs)")
     (auto simp: length_dropWhile_le less_Suc_eq_le)

text \<open>
  The text of a part: the boundary of the batch; for a read the part of the request; for
  a changeset the declaration of its boundary, the part of each of its requests behind
  that boundary, and its closing boundary. The batch ends with its closing boundary.
\<close>

fun spec_part_text :: "env \<Rightarrow> string \<Rightarrow> string \<Rightarrow> batch_part \<Rightarrow> string list" where
  "spec_part_text e bid a (Read_part r) =
     [''--batch_'' @ bid @ LF] @ part_prefix @ request_lines e a r"
| "spec_part_text e bid a (Changeset_part g rs) =
     [''--batch_'' @ bid @ LF,
      ''Content-Type: multipart/mixed; boundary='' @ DQ @ ''changeset_'' @ g @ DQ @ LF @ LF]
     @ concat (map (\<lambda>r. [''--changeset_'' @ g @ LF] @ part_prefix @ request_lines e a r) rs)
     @ [''--changeset_'' @ g @ ''--'' @ LF @ LF]"

definition spec_batch_text :: "env \<Rightarrow> string \<Rightarrow> string \<Rightarrow> batch_part list \<Rightarrow> string list" where
  "spec_batch_text e bid a parts =
     concat (map (spec_part_text e bid a) parts) @ [''--batch_'' @ bid @ ''--'' @ LF]"

section \<open>Stubs for the examples\<close>

text \<open>
  A stub environment for the examples: no global headers, fetch client 0 from the
  factory, URLs joined by concatenation and absolute when they start with \<open>http\<close>, the
  web URL of a URL being its text before the first underscore, and the given context
  information parser, clock and transport.
\<close>

definition stub_env ::
  "(response \<Rightarrow> error + (string \<times> int)) \<Rightarrow> (nat \<Rightarrow> int) \<Rightarrow> (nat \<Rightarrow> outcome) \<Rightarrow> env" where
  "stub_env pci clk t =
     \<lparr>globalHeaders = [], fetchClientFactory = 0, combine = (\<lambda>a b. a @ b),
      extractWebUrl = (\<lambda>u. takeWhile (\<lambda>c. c \<noteq> CHR ''_'') u),
      isUrlAbsolute = (\<lambda>u. take 4 u = ''http''), toAbsoluteUrl = (\<lambda>u. u),
      getClientTag = (\<lambda>h. []), forEach = (\<lambda>h. h),
      parseContextInfo = pci, guids = (\<lambda>n. ''guid''), clock = clk, transport = t\<rparr>"

text \<open>
  Stub collaborators: a transport with the same outcome for every call, or with one
  outcome for its first call and another for the later ones; a context information
  parser that fails, or that reads a fixed token and lifetime; a clock that stands
  still, or that advances by a millisecond with each reading.
\<close>

definition always :: "outcome \<Rightarrow> nat \<Rightarrow> outcome" where
  "always out n = out"

definition first_then :: "outcome \<Rightarrow> outcome \<Rightarrow> nat \<Rightarrow> outcome" where
  "first_then a b n = (if n = 0 then a else b)"

definition no_context_info :: "response \<Rightarrow> error + (string \<times> int)" where
  "no_context_info r = Inl (Parser_failed [])"

definition context_info :: "string \<Rightarrow> int \<Rightarrow> response \<Rightarrow> error + (string \<times> int)" where
  "context_info v lifetime r = Inr (v, lifetime)"

definition clock_at :: "int \<Rightarrow> nat \<Rightarrow> int" where
  "clock_at t n = t"

definition clock_from :: "int \<Rightarrow> nat \<Rightarrow> int" where
  "clock_from t n = t + int n"

lemmas stubs = stub_env_def always_def first_then_def no_context_info_def context_info_def
  clock_at_def clock_from_def

definition world_init :: world where
  "world_init = \<lparr>digests = Map.empty, sent = [], timers = [], ticks = 0, guid_count = 0,
                  defaultFetchClient = None, events = []\<rparr>"

definition null_body_response :: response where
  "null_body_response = \<lparr>status = 200, statusText = [], headers = [], body = None\<rparr>"

definition plain_response :: "nat \<Rightarrow> string \<Rightarrow> response" where
  "plain_response st tx = \<lparr>status = st, statusText = tx, headers = [], body = Some []\<rparr>"

text \<open>A request for the examples: no headers, no body, a parser that returns the body.\<close>

definition example_request :: "string \<Rightarrow> string \<Rightarrow> batch_request" where
  "example_request m u =
     \<lparr>rid = u, rmethod = m, rurl = u, roptions = no_options,
      rparse = (\<lambda>r. case body r of None \<Rightarrow> Inl (Parser_failed u) | Some t \<Rightarrow> Inr t)\<rparr>"

text \<open>
  A batch for the examples: its options name fetch client 1, as do the options of its
  requests 0 to 4; the options of request 5 name fetch client 2.
\<close>

definition client_request :: "client \<Rightarrow> string \<Rightarrow> batch_request" where
  "client_request c u =
     (example_request ''GET'' u)\<lparr>roptions := no_options\<lparr>fetchClient := Some c\<rparr>\<rparr>"

definition mixed_batch :: batch where
  "mixed_batch =
     \<lparr>batchId = ''B'', baseUrl = ''http://site'', bfetchClient = Some 1,
      requests =
        [client_request 1 ''/a'', client_request 1 ''/b'', client_request 1 ''/c'',
         client_request 1 ''/d'', client_request 1 ''/e'', client_request 2 ''/f'']\<rparr>"

section \<open>Properties of ParseResponse\<close>

lemma statusRegExp_exec_length: "statusRegExp_exec line = Some parts \<Longrightarrow> length parts = 3"
  by (auto simp: statusRegExp_exec_def Let_def split: if_splits)

lemma new_Response_not_Invalid_status: "new_Response b st tx \<noteq> Inl (Invalid_status j)"
  by (simp add: new_Response_def Let_def)

lemma parse_line_not_Invalid_status: "parse_line i line p \<noteq> Inl (Invalid_status j)"
proof (cases "pstate p")
  case Status
  then show ?thesis
    by (auto simp: parse_line_def dest: statusRegExp_exec_length split: option.splits)
next
  case Body
  then show ?thesis
    using new_Response_not_Invalid_status [of None None None j]
      new_Response_not_Invalid_status [of "Some line" "pstatus p" "pstatusText p" j]
    by (auto simp: parse_line_def split: sum.splits)
qed (simp_all add: parse_line_def)

lemma parse_lines_not_Invalid_status: "parse_lines i ls p \<noteq> Inl (Invalid_status j)"
  by (induction ls arbitrary: i p) (auto simp: parse_line_not_Invalid_status split: sum.splits)

lemma parse_lines_append:
  "parse_lines i (xs @ ys) p =
     (case parse_lines i xs p of
        Inl e \<Rightarrow> Inl e
      | Inr p' \<Rightarrow> parse_lines (i + length xs) ys p')"
  by (induction xs arbitrary: i p) (auto split: sum.splits)

lemma skip_batchHeaders:
  "pstate p = BatchHeaders \<Longrightarrow> \<forall>l \<in> set hs. trim l \<noteq> [] \<Longrightarrow> parse_lines i hs p = Inr p"
  by (induction hs arbitrary: i) (auto simp: parse_line_def)

lemma skip_statusHeaders:
  "pstate p = StatusHeaders \<Longrightarrow> \<forall>l \<in> set hs. trim l \<noteq> [] \<Longrightarrow> parse_lines i hs p = Inr p"
  by (induction hs arbitrary: i) (auto simp: parse_line_def)

text \<open>
  Claim C2. A line read in state \<open>status\<close> that does not match the status line pattern
  should fail with the parse error that cites the line's index. On the body whose line 2
  is \<open>garbage\<close> the decoder fails with the engine's error about \<open>null\<close> instead: \<open>exec\<close>
  returns \<open>null\<close>, and the test of \<open>parts.length\<close> that guards the error with the line
  index throws before it. The error with the line index is returned on no input at all.
\<close>

theorem ParseResponse_garbage_status_line:
  "ParseResponse (''--batchresponse_1'' @ [CHR 0x0A, CHR 0x0A] @ ''garbage'' @ [CHR 0x0A])
     = Inl TypeError_null
   \<and> (\<forall>text i. ParseResponse text \<noteq> Inl (Invalid_status i))"
proof
  show "ParseResponse (''--batchresponse_1'' @ [CHR 0x0A, CHR 0x0A] @ ''garbage'' @ [CHR 0x0A])
     = Inl TypeError_null"
    by code_simp
  show "\<forall>text i. ParseResponse text \<noteq> Inl (Invalid_status i)"
    using parse_lines_not_Invalid_status
    by (auto simp: ParseResponse_def split: sum.splits)
qed

lemma parse_part:
  assumes "pstate p = Batch"
    and "take (length header) bl = header"
    and "\<forall>l \<in> set hs. trim l \<noteq> []"
    and "trim blank1 = []"
    and "statusRegExp_exec sl = Some [m, code, reason]"
    and "\<forall>l \<in> set shs. trim l \<noteq> []"
    and "trim blank2 = []"
    and "digits_val code = 204
         \<or> (200 \<le> digits_val code \<and> digits_val code \<le> 599 \<and> digits_val code \<noteq> 205
            \<and> digits_val code \<noteq> 304 \<and> reason_phrase reason)"
  shows "parse_lines i (bl # hs @ blank1 # sl # shs @ blank2 # [bodyline]) p =
     Inr (p\<lparr>pstatus := Some (digits_val code), pstatusText := Some reason,
            responses := responses p @
              [if digits_val code = 204
               then \<lparr>status = 200, statusText = [], headers = [], body = None\<rparr>
               else \<lparr>status = digits_val code, statusText = reason, headers = [],
                     body = Some bodyline\<rparr>],
            pstate := Batch\<rparr>)"
proof -
  let ?p1 = "p\<lparr>pstate := BatchHeaders\<rparr>"
  let ?p2 = "p\<lparr>pstate := Status\<rparr>"
  let ?p3 = "p\<lparr>pstatus := Some (digits_val code), pstatusText := Some reason,
               pstate := StatusHeaders\<rparr>"
  let ?p4 = "?p3\<lparr>pstate := Body\<rparr>"
  have s1: "parse_line i bl p = Inr ?p1"
    using assms(1,2) by (simp add: parse_line_def)
  have s2: "parse_lines (Suc i) hs ?p1 = Inr ?p1"
    using assms(3) by (intro skip_batchHeaders) simp_all
  have s3: "parse_line j blank1 ?p1 = Inr ?p2" for j
    using assms(4) by (simp add: parse_line_def)
  have s4: "parse_line j sl ?p2 = Inr ?p3" for j
    using assms(5) by (simp add: parse_line_def)
  have s5: "parse_lines j shs ?p3 = Inr ?p3" for j
    using assms(6) by (intro skip_statusHeaders) simp_all
  have s6: "parse_line j blank2 ?p3 = Inr ?p4" for j
    using assms(7) by (simp add: parse_line_def)
  have r204: "new_Response None None None
      = Inr \<lparr>status = 200, statusText = [], headers = [], body = None\<rparr>"
    by (simp add: new_Response_def reason_phrase_def)
  have other: "new_Response (Some bodyline) (Some (digits_val code)) (Some reason)
      = Inr \<lparr>status = digits_val code, statusText = reason, headers = [],
              body = Some bodyline\<rparr>"
    if "digits_val code \<noteq> 204"
    using that assms(8) by (simp add: new_Response_def null_body_status_def)
  define r where "r =
      (if digits_val code = 204
       then \<lparr>status = 200, statusText = [], headers = [], body = None\<rparr>
       else \<lparr>status = digits_val code, statusText = reason, headers = [],
             body = Some bodyline\<rparr>)"
  have s7: "parse_line j bodyline
        (p\<lparr>pstatus := Some (digits_val code), pstatusText := Some reason, pstate := Body\<rparr>) =
      Inr (p\<lparr>pstatus := Some (digits_val code), pstatusText := Some reason,
             responses := responses p @ [r], pstate := Batch\<rparr>)" for j
    using other by (simp add: parse_line_def r204 r_def)
  have "parse_lines i (bl # hs @ blank1 # sl # shs @ blank2 # [bodyline]) p =
     Inr (p\<lparr>pstatus := Some (digits_val code), pstatusText := Some reason,
            responses := responses p @ [r], pstate := Batch\<rparr>)"
    by (simp add: parse_lines_append s1 s2 s3 s4 s5 s6 s7)
  then show ?thesis
    by (simp only: r_def)
qed

text \<open>
  Claim C10, as stated: for every status code other than 204 the emitted part carries
  the parsed status, the parsed status text and the body line. The decoder hands the
  body line to the \<open>Response\<close> constructor whenever the status is not 204, and the
  constructor throws for a body with another null body status and for a status outside
  200 to 599: a part with the status line \<open>HTTP/1.1 304 Not Modified\<close>, or with
  \<open>HTTP/1.1 100 Continue\<close>, makes the decoder fail, and no part is emitted.
\<close>

theorem ParseResponse_part_304_throws:
  "ParseResponse
     (''--batchresponse_1'' @ LF @ ''Content-Type: application/http'' @ LF @ LF
      @ ''HTTP/1.1 304 Not Modified'' @ LF @ ''CONTENT-TYPE: application/json'' @ LF @ LF
      @ LF @ ''--batchresponse_1--'' @ LF)
     = Inl TypeError_Response
   \<and> ParseResponse
     (''--batchresponse_1'' @ LF @ ''Content-Type: application/http'' @ LF @ LF
      @ ''HTTP/1.1 100 Continue'' @ LF @ ''CONTENT-TYPE: application/json'' @ LF @ LF
      @ ''x'' @ LF @ ''--batchresponse_1--'' @ LF)
     = Inl RangeError_status"
proof -
  have l304: "split_lf
     (''--batchresponse_1'' @ LF @ ''Content-Type: application/http'' @ LF @ LF
      @ ''HTTP/1.1 304 Not Modified'' @ LF @ ''CONTENT-TYPE: application/json'' @ LF @ LF
      @ LF @ ''--batchresponse_1--'' @ LF)
     = [''--batchresponse_1'', ''Content-Type: application/http'', [],
        ''HTTP/1.1 304 Not Modified'', ''CONTENT-TYPE: application/json'', [], [],
        ''--batchresponse_1--'', []]"
    by code_simp
  have l100: "split_lf
     (''--batchresponse_1'' @ LF @ ''Content-Type: application/http'' @ LF @ LF
      @ ''HTTP/1.1 100 Continue'' @ LF @ ''CONTENT-TYPE: application/json'' @ LF @ LF
      @ ''x'' @ LF @ ''--batchresponse_1--'' @ LF)
     = [''--batchresponse_1'', ''Content-Type: application/http'', [],
        ''HTTP/1.1 100 Continue'', ''CONTENT-TYPE: application/json'', [], ''x'',
        ''--batchresponse_1--'', []]"
    by code_simp
  have bl: "take (length header) ''--batchresponse_1'' = header"
    by code_simp
  have tr: "trim ''Content-Type: application/http'' \<noteq> []"
    "trim ''CONTENT-TYPE: application/json'' \<noteq> []" "trim [] = []"
    by code_simp+
  have sl304: "statusRegExp_exec ''HTTP/1.1 304 Not Modified''
      = Some [''HTTP/1.1 304 Not Modified'', ''304'', ''Not Modified'']"
    by code_simp
  have sl100: "statusRegExp_exec ''HTTP/1.1 100 Continue''
      = Some [''HTTP/1.1 100 Continue'', ''100'', ''Continue'']"
    by code_simp
  have d: "digits_val ''304'' = 304" "digits_val ''100'' = 100"
    by code_simp+
  have rp: "reason_phrase ''Not Modified''"
    by code_simp
  have r304: "new_Response (Some []) (Some 304) (Some ''Not Modified'') = Inl TypeError_Response"
    by (simp add: new_Response_def null_body_status_def rp)
  have r100: "new_Response (Some ''x'') (Some 100) (Some ''Continue'') = Inl RangeError_status"
    by (simp add: new_Response_def)
  have 1: "ParseResponse
     (''--batchresponse_1'' @ LF @ ''Content-Type: application/http'' @ LF @ LF
      @ ''HTTP/1.1 304 Not Modified'' @ LF @ ''CONTENT-TYPE: application/json'' @ LF @ LF
      @ LF @ ''--batchresponse_1--'' @ LF)
     = Inl TypeError_Response"
    unfolding ParseResponse_def l304
    by (simp add: parse_line_def parser_init_def bl tr sl304 d r304)
  have 2: "ParseResponse
     (''--batchresponse_1'' @ LF @ ''Content-Type: application/http'' @ LF @ LF
      @ ''HTTP/1.1 100 Continue'' @ LF @ ''CONTENT-TYPE: application/json'' @ LF @ LF
      @ ''x'' @ LF @ ''--batchresponse_1--'' @ LF)
     = Inl RangeError_status"
    unfolding ParseResponse_def l100
    by (simp add: parse_line_def parser_init_def bl tr sl100 d r100)
  from 1 2 show ?thesis
    by (intro conjI)
qed

text \<open>
  Claim C10, amended. A part is a boundary line, header lines, a blank line, a status
  line, header lines, a blank line and one body line. When the status line carries the
  code 204, the decoder appends the default response (status 200, empty status text,
  null body) to what it has collected, carrying neither the parsed status nor the
  parsed status text. When it carries another code from 200 to 599 that is not a null
  body status (not 205, not 304), with a status text that is a reason phrase, the
  decoder appends the response with the parsed status, the parsed status text and the
  body line. A body that is one such part, a closing boundary line and a blank line
  decodes to that response.
\<close>

theorem ParseResponse_part_204_default:
  assumes "take (length header) bl = header"
    and "\<forall>l \<in> set hs. trim l \<noteq> []"
    and "trim blank1 = []"
    and "statusRegExp_exec sl = Some [m, code, reason]"
    and "\<forall>l \<in> set shs. trim l \<noteq> []"
    and "trim blank2 = []"
    and "digits_val code = 204
         \<or> (200 \<le> digits_val code \<and> digits_val code \<le> 599 \<and> digits_val code \<noteq> 205
            \<and> digits_val code \<noteq> 304 \<and> reason_phrase reason)"
  shows "(\<forall>p i. pstate p = Batch \<longrightarrow>
            (\<exists>p'. parse_lines i (bl # hs @ blank1 # sl # shs @ blank2 # [bodyline]) p = Inr p'
               \<and> pstate p' = Batch
               \<and> responses p' = responses p @
                    [if digits_val code = 204
                     then \<lparr>status = 200, statusText = [], headers = [], body = None\<rparr>
                     else \<lparr>status = digits_val code, statusText = reason, headers = [],
                           body = Some bodyline\<rparr>]))
       \<and> (\<forall>text endl blank3.
            split_lf text = (bl # hs @ blank1 # sl # shs @ blank2 # [bodyline]) @ [endl, blank3]
            \<and> take (length header) endl = header \<and> trim blank3 = [] \<longrightarrow>
            ParseResponse text =
              Inr [if digits_val code = 204
                   then \<lparr>status = 200, statusText = [], headers = [], body = None\<rparr>
                   else \<lparr>status = digits_val code, statusText = reason, headers = [],
                         body = Some bodyline\<rparr>])"
proof (intro conjI allI impI)
  fix p :: parser and i
  assume "pstate p = Batch"
  from parse_part [OF this assms, of i bodyline]
  show "\<exists>p'. parse_lines i (bl # hs @ blank1 # sl # shs @ blank2 # [bodyline]) p = Inr p'
               \<and> pstate p' = Batch
               \<and> responses p' = responses p @
                    [if digits_val code = 204
                     then \<lparr>status = 200, statusText = [], headers = [], body = None\<rparr>
                     else \<lparr>status = digits_val code, statusText = reason, headers = [],
                           body = Some bodyline\<rparr>]"
    by simp
next
  fix t endl blank3
  assume a: "split_lf t = (bl # hs @ blank1 # sl # shs @ blank2 # [bodyline]) @ [endl, blank3]
            \<and> take (length header) endl = header \<and> trim blank3 = []"
  define part where "part = bl # hs @ blank1 # sl # shs @ blank2 # [bodyline]"
  define p1 where "p1 = parser_init
      \<lparr>pstatus := Some (digits_val code), pstatusText := Some reason,
       responses := responses parser_init @
         [if digits_val code = 204
          then \<lparr>status = 200, statusText = [], headers = [], body = None\<rparr>
          else \<lparr>status = digits_val code, statusText = reason, headers = [],
                body = Some bodyline\<rparr>],
       pstate := Batch\<rparr>"
  have "pstate parser_init = Batch"
    by (simp add: parser_init_def)
  from parse_part [OF this assms, of 0 bodyline]
  have 1: "parse_lines 0 part parser_init = Inr p1"
    by (simp only: part_def p1_def)
  have 2: "parse_lines (0 + length part) [endl, blank3] p1 = Inr (p1\<lparr>pstate := Status\<rparr>)"
    using a by (simp add: parse_line_def p1_def)
  from a have "split_lf t = part @ [endl, blank3]"
    by (simp only: part_def)
  then have "parse_lines 0 (split_lf t) parser_init = Inr (p1\<lparr>pstate := Status\<rparr>)"
    by (simp only: parse_lines_append 1 2 sum.case)
  then show "ParseResponse t =
              Inr [if digits_val code = 204
                   then \<lparr>status = 200, statusText = [], headers = [], body = None\<rparr>
                   else \<lparr>status = digits_val code, statusText = reason, headers = [],
                         body = Some bodyline\<rparr>]"
    by (simp add: ParseResponse_def p1_def parser_init_def)
qed

theorem ParseResponse_part_204_default_witness:
  "ParseResponse
     (''--batchresponse_1'' @ LF @ ''Content-Type: application/http'' @ LF @ LF
      @ ''HTTP/1.1 204 No Content'' @ LF @ ''CONTENT-TYPE: application/json'' @ LF @ LF
      @ ''ignored'' @ LF @ ''--batchresponse_1--'' @ LF)
     = Inr [\<lparr>status = 200, statusText = [], headers = [], body = None\<rparr>]
   \<and> ParseResponse
     (''--batchresponse_1'' @ LF @ ''Content-Type: application/http'' @ LF @ LF
      @ ''HTTP/1.1 404 Not Found'' @ LF @ ''CONTENT-TYPE: application/json'' @ LF @ LF
      @ ''{}'' @ LF @ ''--batchresponse_1--'' @ LF)
     = Inr [\<lparr>status = 404, statusText = ''Not Found'', headers = [], body = Some ''{}''\<rparr>]"
proof -
  have bl: "take (length header) ''--batchresponse_1'' = header"
    by code_simp
  have hs: "\<forall>l \<in> set [''Content-Type: application/http'']. trim l \<noteq> []"
    by code_simp
  have shs: "\<forall>l \<in> set [''CONTENT-TYPE: application/json'']. trim l \<noteq> []"
    by code_simp
  have blank: "trim [] = []"
    by code_simp
  have sl204: "statusRegExp_exec ''HTTP/1.1 204 No Content''
      = Some [''HTTP/1.1 204 No Content'', ''204'', ''No Content'']"
    by code_simp
  have sl404: "statusRegExp_exec ''HTTP/1.1 404 Not Found''
      = Some [''HTTP/1.1 404 Not Found'', ''404'', ''Not Found'']"
    by code_simp
  have d204: "digits_val ''204'' = 204" and d404: "digits_val ''404'' = 404"
    by code_simp+
  have rp: "reason_phrase ''Not Found''"
    by code_simp
  have c204: "digits_val ''204'' = 204
         \<or> (200 \<le> digits_val ''204'' \<and> digits_val ''204'' \<le> 599 \<and> digits_val ''204'' \<noteq> 205
            \<and> digits_val ''204'' \<noteq> 304 \<and> reason_phrase ''No Content'')"
    by (simp add: d204)
  have c404: "digits_val ''404'' = 204
         \<or> (200 \<le> digits_val ''404'' \<and> digits_val ''404'' \<le> 599 \<and> digits_val ''404'' \<noteq> 205
            \<and> digits_val ''404'' \<noteq> 304 \<and> reason_phrase ''Not Found'')"
    by (simp add: d404 rp)
  have endl: "take (length header) ''--batchresponse_1--'' = header"
    by code_simp
  have t204: "split_lf
     (''--batchresponse_1'' @ LF @ ''Content-Type: application/http'' @ LF @ LF
      @ ''HTTP/1.1 204 No Content'' @ LF @ ''CONTENT-TYPE: application/json'' @ LF @ LF
      @ ''ignored'' @ LF @ ''--batchresponse_1--'' @ LF)
     = (''--batchresponse_1'' # [''Content-Type: application/http''] @ [] #
        ''HTTP/1.1 204 No Content'' # [''CONTENT-TYPE: application/json''] @ [] # [''ignored''])
       @ [''--batchresponse_1--'', []]"
    by code_simp
  have t404: "split_lf
     (''--batchresponse_1'' @ LF @ ''Content-Type: application/http'' @ LF @ LF
      @ ''HTTP/1.1 404 Not Found'' @ LF @ ''CONTENT-TYPE: application/json'' @ LF @ LF
      @ ''{}'' @ LF @ ''--batchresponse_1--'' @ LF)
     = (''--batchresponse_1'' # [''Content-Type: application/http''] @ [] #
        ''HTTP/1.1 404 Not Found'' # [''CONTENT-TYPE: application/json''] @ [] # [''{}''])
       @ [''--batchresponse_1--'', []]"
    by code_simp
  note r204 = ParseResponse_part_204_default
    [OF bl hs blank sl204 shs blank c204, of "''ignored''", THEN conjunct2, rule_format,
     OF conjI [OF t204 conjI [OF endl blank]]]
  note r404 = ParseResponse_part_204_default
    [OF bl hs blank sl404 shs blank c404, of "''{}''", THEN conjunct2, rule_format,
     OF conjI [OF t404 conjI [OF endl blank]]]
  from r204 have 1: "ParseResponse
     (''--batchresponse_1'' @ LF @ ''Content-Type: application/http'' @ LF @ LF
      @ ''HTTP/1.1 204 No Content'' @ LF @ ''CONTENT-TYPE: application/json'' @ LF @ LF
      @ ''ignored'' @ LF @ ''--batchresponse_1--'' @ LF)
     = Inr [\<lparr>status = 200, statusText = [], headers = [], body = None\<rparr>]"
    by (simp add: d204)
  from r404 have 2: "ParseResponse
     (''--batchresponse_1'' @ LF @ ''Content-Type: application/http'' @ LF @ LF
      @ ''HTTP/1.1 404 Not Found'' @ LF @ ''CONTENT-TYPE: application/json'' @ LF @ LF
      @ ''{}'' @ LF @ ''--batchresponse_1--'' @ LF)
     = Inr [\<lparr>status = 404, statusText = ''Not Found'', headers = [], body = Some ''{}''\<rparr>]"
    by (simp add: d404)
  from 1 2 show ?thesis
    by (intro conjI)
qed

section \<open>Properties of fetchRaw\<close>

lemma setRetry_result:
  "setRetry ctx r = (ctx', a) \<Longrightarrow>
     retryCount ctx' = retryCount ctx \<and> attempts ctx' = Suc (attempts ctx) \<and>
     (if retryCount ctx \<le> Suc (attempts ctx)
      then a = Give_up (Retry_count_exceeded (retryCount ctx) (status r) (statusText r))
      else (\<exists>d. a = Set_timeout d))"
  by (auto simp: setRetry_def Let_def split: if_splits option.splits)

lemma getFetchClient_sent:
  "getFetchClient e options w = (c, w1) \<Longrightarrow> sent w1 = sent w \<and> timers w1 = timers w"
  by (auto simp: getFetchClient_def split: option.splits)

lemma attempt_retryable_reject:
  assumes "transport e (length (sent w)) = Reject r" and "status r = 503 \<or> status r = 504"
  shows "\<exists>w'. length (sent w') = Suc (length (sent w)) \<and>
     (if retryCount ctx \<le> Suc (attempts ctx)
      then attempt e url options ctx w =
             (Inl (Rejected (Retry_count_exceeded (retryCount ctx) (status r) (statusText r))), w')
           \<and> timers w' = timers w
      else (\<exists>ctx'. attempt e url options ctx w = (Inr ctx', w') \<and>
              retryCount ctx' = retryCount ctx \<and> attempts ctx' = Suc (attempts ctx)
              \<and> length (timers w') = Suc (length (timers w))))"
proof -
  obtain c w1 where g: "getFetchClient e options w = (c, w1)"
    by (cases "getFetchClient e options w")
  obtain ctx' a where s: "setRetry ctx r = (ctx', a)"
    by (cases "setRetry ctx r")
  from getFetchClient_sent[OF g] have w1: "sent w1 = sent w" "timers w1 = timers w"
    by simp_all
  from setRetry_result[OF s] assms show ?thesis
    by (cases a) (auto simp: attempt_def g s w1 Let_def split: if_splits)
qed

lemma retry_all_503:
  assumes "\<forall>n. \<exists>r. transport e n = Reject r \<and> status r = 503"
  shows "retryCount ctx - attempts ctx = Suc k \<Longrightarrow>
     \<exists>w' r. retry e url options ctx w =
               (Rejected (Retry_count_exceeded (retryCount ctx) 503 (statusText r)), w')
        \<and> length (sent w') = length (sent w) + Suc k
        \<and> transport e (length (sent w) + k) = Reject r
        \<and> length (timers w') = length (timers w) + k"
proof (induction k arbitrary: ctx w)
  case 0
  from assms obtain r where r: "transport e (length (sent w)) = Reject r" "status r = 503"
    by blast
  from 0 have le: "retryCount ctx \<le> Suc (attempts ctx)"
    by simp
  from attempt_retryable_reject[OF r(1), of ctx url options] r(2) le
  obtain w' where "length (sent w') = Suc (length (sent w))"
    "attempt e url options ctx w =
       (Inl (Rejected (Retry_count_exceeded (retryCount ctx) 503 (statusText r))), w')"
    "timers w' = timers w"
    by auto
  with r show ?case
    by (subst retry.simps) auto
next
  case (Suc k)
  from assms obtain r where r: "transport e (length (sent w)) = Reject r" "status r = 503"
    by blast
  from Suc.prems have gt: "\<not> retryCount ctx \<le> Suc (attempts ctx)"
    by simp
  from attempt_retryable_reject[OF r(1), of ctx url options] r(2) gt
  obtain w' ctx' where a: "length (sent w') = Suc (length (sent w))"
    "attempt e url options ctx w = (Inr ctx', w')"
    "retryCount ctx' = retryCount ctx" "attempts ctx' = Suc (attempts ctx)"
    "length (timers w') = Suc (length (timers w))"
    by auto
  from a Suc.prems have "retryCount ctx' - attempts ctx' = Suc k"
    by simp
  from Suc.IH[OF this, of w'] a show ?case
    by (subst retry.simps) auto
qed

text \<open>
  Claim C3, as stated: a transport whose every attempt yields HTTP 503 makes the call
  fail after exactly 7 attempts. The source retries a 503 only in the \<open>catch\<close> branch,
  that is when the transport's promise rejects with the response. A transport that
  fulfils its promise with a 503 response on every attempt is called once, and the call
  resolves with that response.
\<close>

theorem fetchRaw_fulfilled_503_resolves:
  "fst (fetchRaw (stub_env no_context_info (clock_at 0)
                   (always (Fulfil (plain_response 503 ''Service Unavailable''))))
          ''http://x'' no_options world_init)
     = Resolved (plain_response 503 ''Service Unavailable'')
   \<and> length (sent (snd (fetchRaw (stub_env no_context_info (clock_at 0)
                   (always (Fulfil (plain_response 503 ''Service Unavailable''))))
          ''http://x'' no_options world_init))) = 1"
  by (simp add: fetchRaw_def attempt_def getFetchClient_def stubs world_init_def
      no_options_def plain_response_def mergeHeaders_def retry_ctx_init_def)

text \<open>
  Claim C3, amended: for a transport whose every attempt rejects with a response of
  status 503, \<open>attempts\<close> grows by one with each attempt and the call makes exactly 7
  attempts (the default budget), with 6 scheduled waits between them, and then fails
  with the retry-count-exceeded error that carries the budget and the status and status
  text of the last (seventh) response.
\<close>

theorem fetchRaw_rejected_503_exhausts:
  assumes "\<forall>n. \<exists>r. transport e n = Reject r \<and> status r = 503"
  shows "\<exists>w' r. fetchRaw e url options w =
                  (Rejected (Retry_count_exceeded 7 503 (statusText r)), w')
        \<and> length (sent w') = length (sent w) + 7
        \<and> transport e (length (sent w) + 6) = Reject r
        \<and> length (timers w') = length (timers w) + 6
        \<and> (\<forall>ctx r'. attempts (fst (setRetry ctx r')) = Suc (attempts ctx))"
proof -
  have "attempts (fst (setRetry ctx r')) = Suc (attempts ctx)" for ctx r'
    using setRetry_result [of ctx r'] by (cases "setRetry ctx r'") simp
  then show ?thesis
    using retry_all_503 [OF assms, of retry_ctx_init 6 url _ w]
    by (simp add: fetchRaw_def retry_ctx_init_def)
qed

theorem fetchRaw_rejected_503_exhausts_witness:
  "(\<forall>n. \<exists>r. transport (stub_env no_context_info (clock_at 0)
                   (always (Reject (plain_response 503 ''Service Unavailable'')))) n = Reject r
            \<and> status r = 503)
   \<and> fst (fetchRaw (stub_env no_context_info (clock_at 0)
                   (always (Reject (plain_response 503 ''Service Unavailable''))))
            ''http://x'' no_options world_init)
       = Rejected (Retry_count_exceeded 7 503 ''Service Unavailable'')
   \<and> length (sent (snd (fetchRaw (stub_env no_context_info (clock_at 0)
                   (always (Reject (plain_response 503 ''Service Unavailable''))))
            ''http://x'' no_options world_init))) = 7"
proof -
  let ?e = "stub_env no_context_info (clock_at 0)
              (always (Reject (plain_response 503 ''Service Unavailable'')))"
  have h: "\<forall>n. \<exists>r. transport ?e n = Reject r \<and> status r = 503"
    by (simp add: stubs plain_response_def)
  from fetchRaw_rejected_503_exhausts [OF h, of "''http://x''" no_options world_init]
  obtain w' r where
    "fetchRaw ?e ''http://x'' no_options world_init =
       (Rejected (Retry_count_exceeded 7 503 (statusText r)), w')"
    "length (sent w') = length (sent world_init) + 7"
    "transport ?e (length (sent world_init) + 6) = Reject r"
    by blast
  then show ?thesis
    using h by (auto simp: stubs world_init_def plain_response_def)
qed





section \<open>Properties of the digest cache and of fetch\<close>

lemma retry_sent:
  "retry e url options ctx w = (res, w') \<Longrightarrow>
     \<exists>cs. cs \<noteq> [] \<and> sent w' = sent w @ map (\<lambda>c. (c, url, options)) cs
        \<and> digests w' = digests w \<and> ticks w' = ticks w \<and> events w' = events w
        \<and> guid_count w' = guid_count w"
proof (induction e url options ctx w arbitrary: res w' rule: retry.induct)
  case (1 e url options ctx w)
  obtain c w1 where g: "getFetchClient e options w = (c, w1)"
    by (cases "getFetchClient e options w")
  then have w1: "sent w1 = sent w" "digests w1 = digests w" "ticks w1 = ticks w"
    "events w1 = events w" "guid_count w1 = guid_count w"
    by (auto simp: getFetchClient_def split: option.splits)
  obtain x wa where a: "attempt e url options ctx w = (x, wa)"
    by (cases "attempt e url options ctx w")
  then have wa: "sent wa = sent w @ [(c, url, options)]" "digests wa = digests w"
    "ticks wa = ticks w" "events wa = events w" "guid_count wa = guid_count w"
    using g w1
    by (auto simp: attempt_def Let_def
        split: outcome.splits if_splits prod.splits retry_action.splits)
  show ?case
  proof (cases x)
    case (Inl r)
    with a "1.prems" have "w' = wa"
      by (subst (asm) retry.simps) simp
    with wa show ?thesis
      by (intro exI[of _ "[c]"]) simp
  next
    case (Inr ctx')
    with a "1.prems" have r: "retry e url options ctx' wa = (res, w')"
      by (subst (asm) retry.simps) simp
    from "1.IH"[OF a[symmetric] Inr r] obtain cs where
      "sent w' = sent wa @ map (\<lambda>c. (c, url, options)) cs" "digests w' = digests wa"
      "ticks w' = ticks wa" "events w' = events wa" "guid_count w' = guid_count wa"
      by blast
    with wa show ?thesis
      by (intro exI[of _ "c # cs"]) simp
  qed
qed

lemma fetchRaw_sent:
  "fetchRaw e url options w = (res, w') \<Longrightarrow>
     \<exists>cs. cs \<noteq> [] \<and> sent w' = sent w @ map (\<lambda>c. (c, url, options)) cs
        \<and> digests w' = digests w \<and> ticks w' = ticks w \<and> events w' = events w
        \<and> guid_count w' = guid_count w"
  using retry_sent [of e url options retry_ctx_init w res w']
  by (simp add: fetchRaw_def mergeHeaders_def)

lemma fetchRaw_plain:
  assumes "transport e (length (sent w)) = Fulfil resp" and "status resp \<noteq> 429"
    and "fetchClient options = Some c"
  shows "fetchRaw e url options w = (Resolved resp, w\<lparr>sent := sent w @ [(c, url, options)]\<rparr>)"
  using assms
  by (simp add: fetchRaw_def mergeHeaders_def attempt_def getFetchClient_def)

text \<open>
  Claim C5. A lookup for a fetch client and a web URL that have a cached entry reads the
  clock once. If the reading is before the entry's expiration, the cached value is
  returned and nothing but the clock has moved: no call of the transport, the cache as
  it was. If the reading is at or after the expiration, the network calls are those of
  exactly one \<open>fetchRaw\<close> call of the context information request (one call of the
  transport when it answers with a response that is not retried); a failure of the call
  or of the parse is returned instead of a token, and otherwise the parsed value is
  returned and the entry is replaced by the record of that value and of the expiration
  \<open>now + 1000 * lifetime\<close> milliseconds, \<open>now\<close> being the clock when the entry is
  stored.
\<close>

theorem getDigest_cached_until_expiration:
  assumes "digests w c = Some ds" and "ds webUrl = Some cd"
  shows "(clock e (ticks w) < expiration cd \<longrightarrow>
            getDigest e c webUrl w = (Inr (dvalue cd), w\<lparr>ticks := Suc (ticks w)\<rparr>))
       \<and> (expiration cd \<le> clock e (ticks w) \<longrightarrow>
            (\<forall>res w1.
               fetchRaw e (combine e webUrl ''/_api/contextinfo'') (contextinfo_options e c)
                 (w\<lparr>ticks := Suc (ticks w)\<rparr>) = (res, w1) \<longrightarrow>
               sent (snd (getDigest e c webUrl w)) = sent w1
               \<and> (case res of
                    Rejected err \<Rightarrow> getDigest e c webUrl w = (Inl err, w1)
                  | Resolved resp \<Rightarrow>
                      (case parseContextInfo e resp of
                         Inl err \<Rightarrow> getDigest e c webUrl w = (Inl err, w1)
                       | Inr (v, lifetime) \<Rightarrow>
                           getDigest e c webUrl w =
                             (Inr v,
                              w1\<lparr>ticks := Suc (ticks w1),
                                 digests := (digests w)(c \<mapsto> ds(webUrl \<mapsto>
                                   \<lparr>expiration = clock e (ticks w1) + lifetime * 1000,
                                    dvalue = v\<rparr>))\<rparr>))))
            \<and> (\<forall>resp v lifetime.
                 transport e (length (sent w)) = Fulfil resp \<and> status resp \<noteq> 429
                 \<and> parseContextInfo e resp = Inr (v, lifetime) \<longrightarrow>
                 getDigest e c webUrl w =
                   (Inr v,
                    w\<lparr>ticks := Suc (Suc (ticks w)),
                      sent := sent w @
                        [(c, combine e webUrl ''/_api/contextinfo'', contextinfo_options e c)],
                      digests := (digests w)(c \<mapsto> ds(webUrl \<mapsto>
                        \<lparr>expiration = clock e (Suc (ticks w)) + lifetime * 1000,
                         dvalue = v\<rparr>))\<rparr>)))"
proof (intro conjI impI allI)
  assume "clock e (ticks w) < expiration cd"
  with assms show "getDigest e c webUrl w = (Inr (dvalue cd), w\<lparr>ticks := Suc (ticks w)\<rparr>)"
    by (simp add: getDigest_def getCachedDigests_def new_Date_def)
next
  fix res w1
  assume x: "expiration cd \<le> clock e (ticks w)"
    and f: "fetchRaw e (combine e webUrl ''/_api/contextinfo'') (contextinfo_options e c)
                 (w\<lparr>ticks := Suc (ticks w)\<rparr>) = (res, w1)"
  from x assms have g: "getDigest e c webUrl w
      = refreshDigest e c webUrl ds (w\<lparr>ticks := Suc (ticks w)\<rparr>)"
    by (simp add: getDigest_def getCachedDigests_def new_Date_def)
  from fetchRaw_sent [OF f] have d: "digests w1 = digests w"
    by auto
  show "sent (snd (getDigest e c webUrl w)) = sent w1"
    by (simp add: g refreshDigest_def f new_Date_def split: settled.splits sum.splits)
  show "case res of
          Rejected err \<Rightarrow> getDigest e c webUrl w = (Inl err, w1)
        | Resolved resp \<Rightarrow>
            (case parseContextInfo e resp of
               Inl err \<Rightarrow> getDigest e c webUrl w = (Inl err, w1)
             | Inr (v, lifetime) \<Rightarrow>
                 getDigest e c webUrl w =
                   (Inr v,
                    w1\<lparr>ticks := Suc (ticks w1),
                       digests := (digests w)(c \<mapsto> ds(webUrl \<mapsto>
                         \<lparr>expiration = clock e (ticks w1) + lifetime * 1000,
                          dvalue = v\<rparr>))\<rparr>))"
    by (simp add: g refreshDigest_def f new_Date_def dateAdd_second_def d
        split: settled.splits sum.splits)
next
  fix resp v lifetime
  assume x: "expiration cd \<le> clock e (ticks w)"
    and t: "transport e (length (sent w)) = Fulfil resp \<and> status resp \<noteq> 429
            \<and> parseContextInfo e resp = Inr (v, lifetime)"
  from x assms have g: "getDigest e c webUrl w
      = refreshDigest e c webUrl ds (w\<lparr>ticks := Suc (ticks w)\<rparr>)"
    by (simp add: getDigest_def getCachedDigests_def new_Date_def)
  have "fetchRaw e (combine e webUrl ''/_api/contextinfo'') (contextinfo_options e c)
          (w\<lparr>ticks := Suc (ticks w)\<rparr>)
        = (Resolved resp,
           w\<lparr>ticks := Suc (ticks w),
             sent := sent w @
               [(c, combine e webUrl ''/_api/contextinfo'', contextinfo_options e c)]\<rparr>)"
    using t by (subst fetchRaw_plain [where c = c and resp = resp])
      (simp_all add: contextinfo_options_def)
  with t show "getDigest e c webUrl w =
                   (Inr v,
                    w\<lparr>ticks := Suc (Suc (ticks w)),
                      sent := sent w @
                        [(c, combine e webUrl ''/_api/contextinfo'', contextinfo_options e c)],
                      digests := (digests w)(c \<mapsto> ds(webUrl \<mapsto>
                        \<lparr>expiration = clock e (Suc (ticks w)) + lifetime * 1000,
                         dvalue = v\<rparr>))\<rparr>)"
    by (simp add: g refreshDigest_def new_Date_def dateAdd_second_def)
qed

theorem getDigest_cached_until_expiration_witness:
  "fst (getDigest (stub_env (context_info ''new'' 1800) (clock_at 500)
                    (always (Fulfil (plain_response 200 ''OK''))))
          0 ''http://site''
          (world_init\<lparr>digests :=
             [0 \<mapsto> [''http://site'' \<mapsto> \<lparr>expiration = 1000, dvalue = ''old''\<rparr>]]\<rparr>))
     = Inr ''old''
   \<and> sent (snd (getDigest (stub_env (context_info ''new'' 1800) (clock_at 500)
                    (always (Fulfil (plain_response 200 ''OK''))))
          0 ''http://site''
          (world_init\<lparr>digests :=
             [0 \<mapsto> [''http://site'' \<mapsto> \<lparr>expiration = 1000, dvalue = ''old''\<rparr>]]\<rparr>)))
     = []
   \<and> fst (getDigest (stub_env (context_info ''new'' 1800) (clock_from 2000)
                    (always (Fulfil (plain_response 200 ''OK''))))
          0 ''http://site''
          (world_init\<lparr>digests :=
             [0 \<mapsto> [''http://site'' \<mapsto> \<lparr>expiration = 1000, dvalue = ''old''\<rparr>]]\<rparr>))
     = Inr ''new''
   \<and> length (sent (snd (getDigest (stub_env (context_info ''new'' 1800) (clock_from 2000)
                    (always (Fulfil (plain_response 200 ''OK''))))
          0 ''http://site''
          (world_init\<lparr>digests :=
             [0 \<mapsto> [''http://site'' \<mapsto> \<lparr>expiration = 1000, dvalue = ''old''\<rparr>]]\<rparr>))))
     = 1
   \<and> (\<exists>ds. digests (snd (getDigest (stub_env (context_info ''new'' 1800) (clock_from 2000)
                    (always (Fulfil (plain_response 200 ''OK''))))
          0 ''http://site''
          (world_init\<lparr>digests :=
             [0 \<mapsto> [''http://site'' \<mapsto> \<lparr>expiration = 1000, dvalue = ''old''\<rparr>]]\<rparr>))) 0
          = Some ds
        \<and> ds ''http://site'' = Some \<lparr>expiration = 1802001, dvalue = ''new''\<rparr>)"
proof -
  let ?w = "world_init\<lparr>digests :=
             [0 \<mapsto> [''http://site'' \<mapsto> \<lparr>expiration = 1000, dvalue = ''old''\<rparr>]]\<rparr>"
  let ?hit = "stub_env (context_info ''new'' 1800) (clock_at 500)
                (always (Fulfil (plain_response 200 ''OK'')))"
  let ?late = "stub_env (context_info ''new'' 1800) (clock_from 2000)
                (always (Fulfil (plain_response 200 ''OK'')))"
  have d: "digests ?w 0 = Some [''http://site'' \<mapsto> \<lparr>expiration = 1000, dvalue = ''old''\<rparr>]"
    by simp
  have c: "[''http://site'' \<mapsto> \<lparr>expiration = 1000, dvalue = ''old''\<rparr>] ''http://site''
      = Some \<lparr>expiration = 1000, dvalue = ''old''\<rparr>"
    by simp
  have hit: "clock ?hit (ticks ?w) < expiration \<lparr>expiration = 1000, dvalue = ''old''\<rparr>"
    by (simp add: stubs)
  have late: "expiration \<lparr>expiration = 1000, dvalue = ''old''\<rparr> \<le> clock ?late (ticks ?w)"
    by (simp add: stubs world_init_def)
  have t: "transport ?late (length (sent ?w)) = Fulfil (plain_response 200 ''OK'')
      \<and> status (plain_response 200 ''OK'') \<noteq> 429
      \<and> parseContextInfo ?late (plain_response 200 ''OK'') = Inr (''new'', 1800)"
    by (simp add: stubs plain_response_def)
  from getDigest_cached_until_expiration [OF d c, of ?hit] hit
  have 1: "getDigest ?hit 0 ''http://site'' ?w = (Inr ''old'', ?w\<lparr>ticks := Suc (ticks ?w)\<rparr>)"
    by simp
  from getDigest_cached_until_expiration [OF d c, of ?late] late t
  have 2: "getDigest ?late 0 ''http://site'' ?w =
      (Inr ''new'',
       ?w\<lparr>ticks := Suc (Suc (ticks ?w)),
          sent := sent ?w @
            [(0, combine ?late ''http://site'' ''/_api/contextinfo'', contextinfo_options ?late 0)],
          digests := (digests ?w)(0 \<mapsto>
            [''http://site'' \<mapsto> \<lparr>expiration = 1000, dvalue = ''old''\<rparr>](''http://site'' \<mapsto>
              \<lparr>expiration = clock ?late (Suc (ticks ?w)) + 1800 * 1000, dvalue = ''new''\<rparr>))\<rparr>)"
    by blast
  show ?thesis
    unfolding 1 2 by (simp add: world_init_def stubs)
qed

lemma headers_has_append [simp]:
  "headers_has (a @ b) n \<longleftrightarrow> headers_has a n \<or> headers_has b n"
  by (simp add: headers_has_def)

lemma headers_has_filter: "headers_has (filter P h) n \<Longrightarrow> headers_has h n"
  by (induction h) (auto simp: headers_has_def split: if_splits)

lemma call_headers_global:
  "headers_has (globalHeaders e) n \<Longrightarrow> headers_has (call_headers e options) n"
  by (simp add: call_headers_def Let_def mergeHeaders_def headers_append_def)

lemma contextinfo_no_digest:
  assumes "\<not> headers_has (globalHeaders e) ''X-RequestDigest''"
  shows "\<not> headers_has (oheaders (contextinfo_options e c)) ''X-RequestDigest''"
proof -
  have "\<not> headers_has
         [(''Accept'', ''application/json;odata=verbose''),
          (''Content-Type'', ''application/json;odata=verbose;charset=utf-8'')]
         ''X-RequestDigest''"
    by code_simp
  moreover have "\<exists>P. oheaders (contextinfo_options e c) =
      [(''Accept'', ''application/json;odata=verbose''),
       (''Content-Type'', ''application/json;odata=verbose;charset=utf-8'')]
      @ filter P (globalHeaders e)"
    by (simp add: contextinfo_options_def assign_noOverwrite_def) blast
  ultimately show ?thesis
    using assms headers_has_filter by (auto simp only: headers_has_append)
qed

lemma getDigest_sent:
  assumes "getDigest e c webUrl w = (res, w')"
  shows "\<exists>cs. sent w' = sent w @
           map (\<lambda>c'. (c', combine e webUrl ''/_api/contextinfo'', contextinfo_options e c)) cs"
proof -
  have r: "\<exists>cs. sent w2 = sent w1 @
           map (\<lambda>c'. (c', combine e webUrl ''/_api/contextinfo'', contextinfo_options e c)) cs"
    if "refreshDigest e c webUrl ds w1 = (res, w2)" for ds w1 w2
  proof -
    obtain x wf where f: "fetchRaw e (combine e webUrl ''/_api/contextinfo'')
        (contextinfo_options e c) w1 = (x, wf)"
      by (cases "fetchRaw e (combine e webUrl ''/_api/contextinfo'')
        (contextinfo_options e c) w1")
    from that have "sent w2 = sent wf"
      by (auto simp: refreshDigest_def f new_Date_def split: settled.splits sum.splits)
    with fetchRaw_sent [OF f] show ?thesis
      by auto
  qed
  show ?thesis
  proof (cases "digests w c")
    case None
    with assms r [of Map.empty "w\<lparr>digests := (digests w)(c \<mapsto> Map.empty)\<rparr>" w']
    show ?thesis
      by (simp add: getDigest_def getCachedDigests_def)
  next
    case (Some ds)
    show ?thesis
    proof (cases "ds webUrl")
      case None
      with assms Some r [of ds w w'] show ?thesis
        by (simp add: getDigest_def getCachedDigests_def)
    next
      case (Some cd)
      show ?thesis
      proof (cases "clock e (ticks w) < expiration cd")
        case True
        with assms \<open>digests w c = Some ds\<close> Some have "w' = w\<lparr>ticks := Suc (ticks w)\<rparr>"
          by (simp add: getDigest_def getCachedDigests_def new_Date_def)
        then show ?thesis
          by (intro exI [of _ "[]"]) simp
      next
        case False
        with assms \<open>digests w c = Some ds\<close> Some r [of ds "w\<lparr>ticks := Suc (ticks w)\<rparr>" w']
        show ?thesis
          by (simp add: getDigest_def getCachedDigests_def new_Date_def)
      qed
    qed
  qed
qed

lemma headers_get_appended:
  "\<not> headers_has h n \<Longrightarrow> headers_get (headers_append h n v) n = Some v"
  by (simp add: headers_get_def headers_has_def headers_append_def same_name_def)

text \<open>
  Claim C6. A digest is needed exactly when the call has a method that is not \<open>GET\<close>
  (in any letter case) and its headers, after merging and defaulting, have neither
  \<open>X-RequestDigest\<close> nor \<open>Authorization\<close>. Then the digest cache is asked for the fetch
  client and the web URL extracted from the call's URL; whatever it sends goes to that
  web's context information endpoint and carries no \<open>X-RequestDigest\<close> header; when it
  fails the call fails with its error, and otherwise the call is sent through \<open>fetchRaw\<close>
  with the token appended, so that every transport call made for it carries the token
  as its \<open>X-RequestDigest\<close> header. When no digest is needed the call goes to
  \<open>fetchRaw\<close> as it is: the cache is not touched and every transport call goes to the
  call's URL with the call's headers.
\<close>

theorem fetch_digest_injection:
  "(needs_digest (omethod options) (call_headers e options) \<longrightarrow>
      (\<exists>c w1 res w2.
         getFetchClient e (call_options e options) w = (c, w1)
         \<and> getDigest e c (extractWebUrl e url) w1 = (res, w2)
         \<and> (\<forall>x \<in> set (drop (length (sent w)) (sent w2)).
              fst (snd x) = combine e (extractWebUrl e url) ''/_api/contextinfo''
              \<and> \<not> headers_has (oheaders (snd (snd x))) ''X-RequestDigest'')
         \<and> (case res of
              Inl err \<Rightarrow> fetch e url options w = (Rejected err, w2)
            | Inr digest \<Rightarrow>
                fetch e url options w =
                  fetchRaw e url
                    ((call_options e options)
                       \<lparr>oheaders := call_headers e options @ [(''X-RequestDigest'', digest)]\<rparr>)
                    w2
                \<and> drop (length (sent w2)) (sent (snd (fetch e url options w))) \<noteq> []
                \<and> (\<forall>x \<in> set (drop (length (sent w2)) (sent (snd (fetch e url options w)))).
                     fst (snd x) = url
                     \<and> headers_get (oheaders (snd (snd x))) ''X-RequestDigest'' = Some digest))))
   \<and> (\<not> needs_digest (omethod options) (call_headers e options) \<longrightarrow>
        fetch e url options w = fetchRaw e url (call_options e options) w
        \<and> digests (snd (fetch e url options w)) = digests w
        \<and> (\<forall>x \<in> set (drop (length (sent w)) (sent (snd (fetch e url options w)))).
             fst (snd x) = url \<and> oheaders (snd (snd x)) = call_headers e options))
   \<and> (needs_digest (omethod options) (call_headers e options) \<longleftrightarrow>
        (\<exists>m. omethod options = Some m \<and> m \<noteq> [] \<and> toUpperCase m \<noteq> ''GET'')
        \<and> \<not> headers_has (call_headers e options) ''X-RequestDigest''
        \<and> \<not> headers_has (call_headers e options) ''Authorization'')"
proof (intro conjI impI)
  assume nd: "needs_digest (omethod options) (call_headers e options)"
  let ?opts = "call_options e options"
  have o: "omethod ?opts = omethod options" "oheaders ?opts = call_headers e options"
    by (simp_all add: call_options_def)
  obtain c w1 where g: "getFetchClient e ?opts w = (c, w1)"
    by (cases "getFetchClient e ?opts w")
  obtain res w2 where d: "getDigest e c (extractWebUrl e url) w1 = (res, w2)"
    by (cases "getDigest e c (extractWebUrl e url) w1")
  from nd have nh: "\<not> headers_has (call_headers e options) ''X-RequestDigest''"
    by (auto simp: needs_digest_def split: option.splits)
  then have "\<not> headers_has (globalHeaders e) ''X-RequestDigest''"
    using call_headers_global by blast
  note ci = contextinfo_no_digest [OF this, of c]
  from getFetchClient_sent [OF g] have s1: "sent w1 = sent w"
    by simp
  from getDigest_sent [OF d] s1 ci
  have issue: "\<forall>x \<in> set (drop (length (sent w)) (sent w2)).
      fst (snd x) = combine e (extractWebUrl e url) ''/_api/contextinfo''
      \<and> \<not> headers_has (oheaders (snd (snd x))) ''X-RequestDigest''"
    by auto
  have main: "case res of
       Inl err \<Rightarrow> fetch e url options w = (Rejected err, w2)
     | Inr digest \<Rightarrow>
         fetch e url options w =
           fetchRaw e url (?opts\<lparr>oheaders := call_headers e options @ [(''X-RequestDigest'', digest)]\<rparr>) w2
         \<and> drop (length (sent w2)) (sent (snd (fetch e url options w))) \<noteq> []
         \<and> (\<forall>x \<in> set (drop (length (sent w2)) (sent (snd (fetch e url options w)))).
              fst (snd x) = url
              \<and> headers_get (oheaders (snd (snd x))) ''X-RequestDigest'' = Some digest)"
  proof (cases res)
    case (Inl err)
    with nd g d show ?thesis
      by (simp add: fetch_def Let_def o)
  next
    case (Inr digest)
    let ?o2 = "?opts\<lparr>oheaders := call_headers e options @ [(''X-RequestDigest'', digest)]\<rparr>"
    from Inr nd g d have f: "fetch e url options w = fetchRaw e url ?o2 w2"
      by (simp add: fetch_def Let_def o headers_append_def)
    obtain r wf where fr: "fetchRaw e url ?o2 w2 = (r, wf)"
      by (cases "fetchRaw e url ?o2 w2")
    from headers_get_appended [OF nh, of digest]
    have hg: "headers_get (oheaders ?o2) ''X-RequestDigest'' = Some digest"
      by (simp add: headers_append_def)
    from fetchRaw_sent [OF fr] hg have
      "drop (length (sent w2)) (sent wf) \<noteq> []
       \<and> (\<forall>x \<in> set (drop (length (sent w2)) (sent wf)).
              fst (snd x) = url
              \<and> headers_get (oheaders (snd (snd x))) ''X-RequestDigest'' = Some digest)"
      by auto
    with Inr f fr show ?thesis
      by simp
  qed
  from g d issue main
  show "\<exists>c w1 res w2.
         getFetchClient e (call_options e options) w = (c, w1)
         \<and> getDigest e c (extractWebUrl e url) w1 = (res, w2)
         \<and> (\<forall>x \<in> set (drop (length (sent w)) (sent w2)).
              fst (snd x) = combine e (extractWebUrl e url) ''/_api/contextinfo''
              \<and> \<not> headers_has (oheaders (snd (snd x))) ''X-RequestDigest'')
         \<and> (case res of
              Inl err \<Rightarrow> fetch e url options w = (Rejected err, w2)
            | Inr digest \<Rightarrow>
                fetch e url options w =
                  fetchRaw e url
                    ((call_options e options)
                       \<lparr>oheaders := call_headers e options @ [(''X-RequestDigest'', digest)]\<rparr>)
                    w2
                \<and> drop (length (sent w2)) (sent (snd (fetch e url options w))) \<noteq> []
                \<and> (\<forall>x \<in> set (drop (length (sent w2)) (sent (snd (fetch e url options w)))).
                     fst (snd x) = url
                     \<and> headers_get (oheaders (snd (snd x))) ''X-RequestDigest'' = Some digest))"
    by blast
next
  assume nn: "\<not> needs_digest (omethod options) (call_headers e options)"
  then show f: "fetch e url options w = fetchRaw e url (call_options e options) w"
    by (simp add: fetch_def Let_def call_options_def)
  obtain r wf where fr: "fetchRaw e url (call_options e options) w = (r, wf)"
    by (cases "fetchRaw e url (call_options e options) w")
  from fetchRaw_sent [OF fr] f fr
  show "digests (snd (fetch e url options w)) = digests w"
    by auto
  from fetchRaw_sent [OF fr] f fr
  show "\<forall>x \<in> set (drop (length (sent w)) (sent (snd (fetch e url options w)))).
             fst (snd x) = url \<and> oheaders (snd (snd x)) = call_headers e options"
    by (auto simp: call_options_def)
next
  show "needs_digest (omethod options) (call_headers e options) \<longleftrightarrow>
        (\<exists>m. omethod options = Some m \<and> m \<noteq> [] \<and> toUpperCase m \<noteq> ''GET'')
        \<and> \<not> headers_has (call_headers e options) ''X-RequestDigest''
        \<and> \<not> headers_has (call_headers e options) ''Authorization''"
    by (auto simp: needs_digest_def split: option.splits)
qed

theorem fetch_digest_injection_witness:
  "needs_digest (omethod (no_options\<lparr>omethod := Some ''POST''\<rparr>))
     (call_headers (stub_env (context_info ''tok'' 1800) (clock_at 0)
                      (always (Fulfil (plain_response 200 ''OK''))))
        (no_options\<lparr>omethod := Some ''POST''\<rparr>))
   \<and> map (\<lambda>x. (fst (snd x), headers_get (oheaders (snd (snd x))) ''X-RequestDigest''))
        (sent (snd (fetch (stub_env (context_info ''tok'' 1800) (clock_at 0)
                             (always (Fulfil (plain_response 200 ''OK''))))
                      ''http://site/_api/web/lists''
                      (no_options\<lparr>omethod := Some ''POST''\<rparr>) world_init)))
       = [(''http://site//_api/contextinfo'', None),
          (''http://site/_api/web/lists'', Some ''tok'')]
   \<and> \<not> needs_digest (omethod (no_options\<lparr>omethod := Some ''get''\<rparr>))
         (call_headers (stub_env (context_info ''tok'' 1800) (clock_at 0)
                          (always (Fulfil (plain_response 200 ''OK''))))
            (no_options\<lparr>omethod := Some ''get''\<rparr>))
   \<and> fetch (stub_env (context_info ''tok'' 1800) (clock_at 0)
               (always (Fulfil (plain_response 200 ''OK''))))
        ''http://site/_api/web/lists'' (no_options\<lparr>omethod := Some ''get''\<rparr>) world_init
       = fetchRaw (stub_env (context_info ''tok'' 1800) (clock_at 0)
                     (always (Fulfil (plain_response 200 ''OK''))))
           ''http://site/_api/web/lists''
           (call_options (stub_env (context_info ''tok'' 1800) (clock_at 0)
                            (always (Fulfil (plain_response 200 ''OK''))))
              (no_options\<lparr>omethod := Some ''get''\<rparr>))
           world_init
   \<and> digests (snd (fetch (stub_env (context_info ''tok'' 1800) (clock_at 0)
                            (always (Fulfil (plain_response 200 ''OK''))))
                     ''http://site/_api/web/lists''
                     (no_options\<lparr>omethod := Some ''get''\<rparr>) world_init))
       = digests world_init
   \<and> (\<exists>res w2.
         getDigest (stub_env (context_info ''tok'' 1800) (clock_at 0)
                      (always (Fulfil (plain_response 200 ''OK''))))
           0 ''http://site/'' (world_init\<lparr>defaultFetchClient := Some 0\<rparr>) = (res, w2)
         \<and> (case res of
              Inl err \<Rightarrow> False
            | Inr digest \<Rightarrow>
                digest = ''tok''
                \<and> drop (length (sent w2))
                     (sent (snd (fetch (stub_env (context_info ''tok'' 1800) (clock_at 0)
                                          (always (Fulfil (plain_response 200 ''OK''))))
                                   ''http://site/_api/web/lists''
                                   (no_options\<lparr>omethod := Some ''POST''\<rparr>) world_init)))
                   \<noteq> []))"
proof -
  let ?e = "stub_env (context_info ''tok'' 1800) (clock_at 0) (always (Fulfil (plain_response 200 ''OK'')))"
  let ?p = "no_options\<lparr>omethod := Some ''POST''\<rparr>"
  let ?g = "no_options\<lparr>omethod := Some ''get''\<rparr>"
  let ?url = "''http://site/_api/web/lists''"
  have up: "toUpperCase ''X-RequestDigest'' = ''X-REQUESTDIGEST''"
    "toUpperCase ''Accept'' = ''ACCEPT''"
    "toUpperCase ''Content-Type'' = ''CONTENT-TYPE''"
    "toUpperCase ''X-ClientService-ClientTag'' = ''X-CLIENTSERVICE-CLIENTTAG''"
    "toUpperCase ''Authorization'' = ''AUTHORIZATION''"
    "toUpperCase ''POST'' = ''POST''"
    "toUpperCase ''get'' = ''GET''"
    by code_simp+
  have nd: "needs_digest (omethod ?p) (call_headers ?e ?p)"
    by (simp add: needs_digest_def call_headers_def no_options_def stubs
        mergeHeaders_def headers_has_def headers_append_def same_name_def up)
  have nn: "\<not> needs_digest (omethod ?g) (call_headers ?e ?g)"
    by (simp add: needs_digest_def call_headers_def no_options_def stubs
        mergeHeaders_def headers_has_def headers_append_def same_name_def up)
  have sent_p: "map (\<lambda>x. (fst (snd x), headers_get (oheaders (snd (snd x))) ''X-RequestDigest''))
        (sent (snd (fetch ?e ?url ?p world_init)))
       = [(''http://site//_api/contextinfo'', None), (?url, Some ''tok'')]"
    by (simp add: fetch_def call_options_def needs_digest_def call_headers_def no_options_def
        stubs mergeHeaders_def headers_has_def headers_get_def headers_append_def
        same_name_def up getFetchClient_def getDigest_def getCachedDigests_def
        refreshDigest_def contextinfo_options_def assign_noOverwrite_def fetchRaw_def
        attempt_def retry_ctx_init_def world_init_def plain_response_def new_Date_def
        dateAdd_second_def Let_def)
  have gc: "getFetchClient ?e (call_options ?e ?p) world_init
      = (0, world_init\<lparr>defaultFetchClient := Some 0\<rparr>)"
    by (simp add: getFetchClient_def call_options_def no_options_def world_init_def
        stubs)
  have web: "extractWebUrl ?e ?url = ''http://site/''"
    by (simp add: stubs)
  have tok: "fst (getDigest ?e 0 ''http://site/'' (world_init\<lparr>defaultFetchClient := Some 0\<rparr>))
      = Inr ''tok''"
    by (simp add: fetch_def call_options_def needs_digest_def call_headers_def no_options_def
        stubs mergeHeaders_def headers_has_def headers_get_def headers_append_def
        same_name_def up getFetchClient_def getDigest_def getCachedDigests_def
        refreshDigest_def contextinfo_options_def assign_noOverwrite_def fetchRaw_def
        attempt_def retry_ctx_init_def world_init_def plain_response_def new_Date_def
        dateAdd_second_def Let_def)
  from fetch_digest_injection [where options = ?p and e = ?e and url = ?url and w = world_init] nd
  obtain c w1 res w2 where
    "getFetchClient ?e (call_options ?e ?p) world_init = (c, w1)"
    "getDigest ?e c (extractWebUrl ?e ?url) w1 = (res, w2)"
    "case res of
       Inl err \<Rightarrow> fetch ?e ?url ?p world_init = (Rejected err, w2)
     | Inr digest \<Rightarrow>
         fetch ?e ?url ?p world_init =
           fetchRaw ?e ?url
             ((call_options ?e ?p)\<lparr>oheaders := call_headers ?e ?p @ [(''X-RequestDigest'', digest)]\<rparr>)
             w2
         \<and> drop (length (sent w2)) (sent (snd (fetch ?e ?url ?p world_init))) \<noteq> []
         \<and> (\<forall>x \<in> set (drop (length (sent w2)) (sent (snd (fetch ?e ?url ?p world_init)))).
              fst (snd x) = ?url
              \<and> headers_get (oheaders (snd (snd x))) ''X-RequestDigest'' = Some digest)"
    by blast
  with gc web tok have post: "\<exists>res w2.
      getDigest ?e 0 ''http://site/'' (world_init\<lparr>defaultFetchClient := Some 0\<rparr>) = (res, w2)
      \<and> (case res of
           Inl err \<Rightarrow> False
         | Inr digest \<Rightarrow>
             digest = ''tok''
             \<and> drop (length (sent w2)) (sent (snd (fetch ?e ?url ?p world_init))) \<noteq> [])"
    by (auto split: sum.splits)
  from fetch_digest_injection [where options = ?g and e = ?e and url = ?url and w = world_init] nn
  have get: "fetch ?e ?url ?g world_init = fetchRaw ?e ?url (call_options ?e ?g) world_init"
    "digests (snd (fetch ?e ?url ?g world_init)) = digests world_init"
    by blast+
  from nd sent_p nn get post show ?thesis
    by (intro conjI)
qed

section \<open>Properties of the batch encoder\<close>

lemma encode_request_read:
  assumes "rmethod r = ''GET''" and "isUrlAbsolute e (request_url e a r)"
  shows "encode_request e bid a i r enc w =
     (Inr \<lparr>currentChangeSetId = [],
           batchBody = batchBody enc
             @ (if currentChangeSetId enc \<noteq> []
                then [''--changeset_'' @ currentChangeSetId enc @ ''--'' @ LF @ LF] else [])
             @ [''--batch_'' @ bid @ LF] @ part_prefix @ request_lines e a r\<rparr>, w)"
  using assms by (simp add: encode_request_def open_part_def Let_def)

lemma encode_request_write_opens:
  assumes "rmethod r \<noteq> ''GET''" and "isUrlAbsolute e (request_url e a r)"
    and "currentChangeSetId enc = []"
  shows "encode_request e bid a i r enc w =
     (Inr \<lparr>currentChangeSetId = guids e (guid_count w),
           batchBody = batchBody enc
             @ [''--batch_'' @ bid @ LF,
                ''Content-Type: multipart/mixed; boundary='' @ DQ @ ''changeset_''
                  @ guids e (guid_count w) @ DQ @ LF @ LF,
                ''--changeset_'' @ guids e (guid_count w) @ LF]
             @ part_prefix @ request_lines e a r\<rparr>,
      w\<lparr>guid_count := Suc (guid_count w)\<rparr>)"
  using assms by (simp add: encode_request_def open_part_def getGUID_def Let_def)

lemma encode_request_write_joins:
  assumes "rmethod r \<noteq> ''GET''" and "isUrlAbsolute e (request_url e a r)"
    and "currentChangeSetId enc \<noteq> []"
  shows "encode_request e bid a i r enc w =
     (Inr \<lparr>currentChangeSetId = currentChangeSetId enc,
           batchBody = batchBody enc @ [''--changeset_'' @ currentChangeSetId enc @ LF]
             @ part_prefix @ request_lines e a r\<rparr>, w)"
  using assms by (simp add: encode_request_def open_part_def Let_def)

lemma encode_requests_spec:
  assumes "\<forall>n. guids e n \<noteq> []"
  shows "\<forall>r \<in> set reqs. isUrlAbsolute e (request_url e a r) \<Longrightarrow>
     \<exists>enc' w'. encode_requests e bid a i reqs enc w = (Inr enc', w') \<and>
       close_batch bid enc' = batchBody enc @
         (if currentChangeSetId enc \<noteq> []
          then concat (map (\<lambda>r. [''--changeset_'' @ currentChangeSetId enc @ LF]
                               @ part_prefix @ request_lines e a r)
                        (takeWhile is_write reqs))
               @ [''--changeset_'' @ currentChangeSetId enc @ ''--'' @ LF @ LF]
               @ spec_batch_text e bid a
                   (spec_parts (guids e) (guid_count w) (dropWhile is_write reqs))
          else spec_batch_text e bid a (spec_parts (guids e) (guid_count w) reqs))"
proof (induction reqs arbitrary: i enc w)
  case Nil
  then show ?case
    by (simp add: close_batch_def spec_batch_text_def)
next
  case (Cons r rs)
  then have abs: "isUrlAbsolute e (request_url e a r)"
    and rest: "\<forall>r \<in> set rs. isUrlAbsolute e (request_url e a r)"
    by simp_all
  show ?case
  proof (cases "rmethod r = ''GET''")
    case True
    let ?enc1 = "\<lparr>currentChangeSetId = [],
           batchBody = batchBody enc
             @ (if currentChangeSetId enc \<noteq> []
                then [''--changeset_'' @ currentChangeSetId enc @ ''--'' @ LF @ LF] else [])
             @ [''--batch_'' @ bid @ LF] @ part_prefix @ request_lines e a r\<rparr>"
    from Cons.IH [OF rest, of "Suc i" ?enc1 w]
    obtain enc' w' where "encode_requests e bid a (Suc i) rs ?enc1 w = (Inr enc', w')"
      "close_batch bid enc' = batchBody ?enc1
         @ spec_batch_text e bid a (spec_parts (guids e) (guid_count w) rs)"
      by auto
    with True show ?thesis
      by (simp add: encode_request_read [OF True abs] is_write_def spec_batch_text_def)
  next
    case False
    show ?thesis
    proof (cases "currentChangeSetId enc = []")
      case True
      let ?g = "guids e (guid_count w)"
      let ?enc1 = "\<lparr>currentChangeSetId = ?g,
           batchBody = batchBody enc
             @ [''--batch_'' @ bid @ LF,
                ''Content-Type: multipart/mixed; boundary='' @ DQ @ ''changeset_''
                  @ ?g @ DQ @ LF @ LF,
                ''--changeset_'' @ ?g @ LF]
             @ part_prefix @ request_lines e a r\<rparr>"
      from assms have g: "?g \<noteq> []"
        by simp
      from Cons.IH [OF rest, of "Suc i" ?enc1 "w\<lparr>guid_count := Suc (guid_count w)\<rparr>"] g
      obtain enc' w' where
        "encode_requests e bid a (Suc i) rs ?enc1 (w\<lparr>guid_count := Suc (guid_count w)\<rparr>)
           = (Inr enc', w')"
        "close_batch bid enc' = batchBody ?enc1
           @ concat (map (\<lambda>r. [''--changeset_'' @ ?g @ LF] @ part_prefix @ request_lines e a r)
                       (takeWhile is_write rs))
           @ [''--changeset_'' @ ?g @ ''--'' @ LF @ LF]
           @ spec_batch_text e bid a
               (spec_parts (guids e) (Suc (guid_count w)) (dropWhile is_write rs))"
        by auto
      with True False show ?thesis
        by (simp add: encode_request_write_opens [OF False abs True] is_write_def
            spec_batch_text_def)
    next
      case open_cs: False
      let ?enc1 = "\<lparr>currentChangeSetId = currentChangeSetId enc,
           batchBody = batchBody enc @ [''--changeset_'' @ currentChangeSetId enc @ LF]
             @ part_prefix @ request_lines e a r\<rparr>"
      from Cons.IH [OF rest, of "Suc i" ?enc1 w] open_cs
      obtain enc' w' where "encode_requests e bid a (Suc i) rs ?enc1 w = (Inr enc', w')"
        "close_batch bid enc' = batchBody ?enc1
           @ concat (map (\<lambda>r. [''--changeset_'' @ currentChangeSetId enc @ LF]
                               @ part_prefix @ request_lines e a r)
                       (takeWhile is_write rs))
           @ [''--changeset_'' @ currentChangeSetId enc @ ''--'' @ LF @ LF]
           @ spec_batch_text e bid a
               (spec_parts (guids e) (guid_count w) (dropWhile is_write rs))"
        by auto
      with open_cs False show ?thesis
        by (simp add: encode_request_write_joins [OF False abs open_cs] is_write_def)
    qed
  qed
qed

text \<open>
  Claim C7. When every identifier that \<open>getGUID\<close> returns is a non-empty string and
  every request has (or resolves to) an absolute URL, the pieces that the encoder pushes
  for a sequence of requests are the text of the specification's parts of that
  sequence: the requests in order, each \<open>GET\<close> a top-level part behind the boundary of
  the batch (after the closing boundary of the changeset before it, if any), each
  maximal run of consecutive writes one changeset that is opened with the next fresh
  identifier and its boundary declaration, holds the part of every write of the run
  behind the changeset boundary, and is closed before the next top-level part or
  before the closing boundary of the batch, which comes last. The parts of the sequence
  GET /a, POST /b, POST /c, GET /d are: the read of /a, one changeset of /b and /c, the
  read of /d.
\<close>

theorem encode_batch_changesets:
  assumes "\<forall>n. guids e n \<noteq> []"
    and "\<forall>r \<in> set reqs. isUrlAbsolute e (request_url e a r)"
  shows "(\<exists>w'. encode_batch e bid a reqs w =
            (Inr (spec_batch_text e bid a (spec_parts (guids e) (guid_count w) reqs)), w'))
       \<and> spec_parts ids k
           [example_request ''GET'' ''/a'', example_request ''POST'' ''/b'',
            example_request ''POST'' ''/c'', example_request ''GET'' ''/d'']
         = [Read_part (example_request ''GET'' ''/a''),
            Changeset_part (ids k)
              [example_request ''POST'' ''/b'', example_request ''POST'' ''/c''],
            Read_part (example_request ''GET'' ''/d'')]"
proof
  from encode_requests_spec [OF assms, of bid 0 "\<lparr>currentChangeSetId = [], batchBody = []\<rparr>" w]
  show "\<exists>w'. encode_batch e bid a reqs w =
            (Inr (spec_batch_text e bid a (spec_parts (guids e) (guid_count w) reqs)), w')"
    by (auto simp: encode_batch_def)
  show "spec_parts ids k
           [example_request ''GET'' ''/a'', example_request ''POST'' ''/b'',
            example_request ''POST'' ''/c'', example_request ''GET'' ''/d'']
         = [Read_part (example_request ''GET'' ''/a''),
            Changeset_part (ids k)
              [example_request ''POST'' ''/b'', example_request ''POST'' ''/c''],
            Read_part (example_request ''GET'' ''/d'')]"
    by (simp add: is_write_def example_request_def)
qed

theorem encode_batch_changesets_witness:
  "(\<forall>n. guids (stub_env (context_info ''tok'' 1800) (clock_at 0)
                  (always (Fulfil (plain_response 200 ''OK'')))) n \<noteq> [])
   \<and> fst (encode_batch (stub_env (context_info ''tok'' 1800) (clock_at 0)
                          (always (Fulfil (plain_response 200 ''OK''))))
            ''B'' ''http://site''
            [example_request ''GET'' ''/a'', example_request ''POST'' ''/b'',
             example_request ''POST'' ''/c'', example_request ''GET'' ''/d'']
            world_init)
     = Inr [''--batch_B'' @ LF,
            ''Content-Type: application/http'' @ LF,
            ''Content-Transfer-Encoding: binary'' @ LF @ LF,
            ''GET http://site/a HTTP/1.1'' @ LF,
            ''Accept: application/json'' @ LF,
            ''Content-Type: application/json;odata=verbose;charset=utf-8'' @ LF,
            ''X-ClientService-ClientTag: PnPCoreJS:@pnp-$$Version$$:batch'' @ LF,
            LF,
            ''--batch_B'' @ LF,
            ''Content-Type: multipart/mixed; boundary='' @ DQ @ ''changeset_guid'' @ DQ
              @ LF @ LF,
            ''--changeset_guid'' @ LF,
            ''Content-Type: application/http'' @ LF,
            ''Content-Transfer-Encoding: binary'' @ LF @ LF,
            ''POST http://site/b HTTP/1.1'' @ LF,
            ''Content-Type: application/json;odata=verbose;charset=utf-8'' @ LF,
            ''Accept: application/json'' @ LF,
            ''X-ClientService-ClientTag: PnPCoreJS:@pnp-$$Version$$:batch'' @ LF,
            LF,
            ''--changeset_guid'' @ LF,
            ''Content-Type: application/http'' @ LF,
            ''Content-Transfer-Encoding: binary'' @ LF @ LF,
            ''POST http://site/c HTTP/1.1'' @ LF,
            ''Content-Type: application/json;odata=verbose;charset=utf-8'' @ LF,
            ''Accept: application/json'' @ LF,
            ''X-ClientService-ClientTag: PnPCoreJS:@pnp-$$Version$$:batch'' @ LF,
            LF,
            ''--changeset_guid--'' @ LF @ LF,
            ''--batch_B'' @ LF,
            ''Content-Type: application/http'' @ LF,
            ''Content-Transfer-Encoding: binary'' @ LF @ LF,
            ''GET http://site/d HTTP/1.1'' @ LF,
            ''Accept: application/json'' @ LF,
            ''Content-Type: application/json;odata=verbose;charset=utf-8'' @ LF,
            ''X-ClientService-ClientTag: PnPCoreJS:@pnp-$$Version$$:batch'' @ LF,
            LF,
            ''--batch_B--'' @ LF]"
proof -
  let ?e = "stub_env (context_info ''tok'' 1800) (clock_at 0) (always (Fulfil (plain_response 200 ''OK'')))"
  let ?reqs = "[example_request ''GET'' ''/a'', example_request ''POST'' ''/b'',
             example_request ''POST'' ''/c'', example_request ''GET'' ''/d'']"
  have g: "\<forall>n. guids ?e n \<noteq> []"
    by (simp add: stubs)
  have u: "\<forall>r \<in> set ?reqs. isUrlAbsolute ?e (request_url ?e ''http://site'' r)"
    by (simp add: stubs request_url_def example_request_def)
  have up: "toUpperCase ''Accept'' = ''ACCEPT''"
    "toUpperCase ''Content-Type'' = ''CONTENT-TYPE''"
    "toUpperCase ''X-ClientService-ClientTag'' = ''X-CLIENTSERVICE-CLIENTTAG''"
    by code_simp+
  have rl: "request_lines ?e ''http://site'' (example_request m u) =
      (if m \<noteq> ''GET''
       then [m @ '' '' @ request_url ?e ''http://site'' (example_request m u) @ '' HTTP/1.1'' @ LF,
             ''Content-Type: application/json;odata=verbose;charset=utf-8'' @ LF,
             ''Accept: application/json'' @ LF,
             ''X-ClientService-ClientTag: PnPCoreJS:@pnp-$$Version$$:batch'' @ LF,
             LF]
       else [m @ '' '' @ request_url ?e ''http://site'' (example_request m u) @ '' HTTP/1.1'' @ LF,
             ''Accept: application/json'' @ LF,
             ''Content-Type: application/json;odata=verbose;charset=utf-8'' @ LF,
             ''X-ClientService-ClientTag: PnPCoreJS:@pnp-$$Version$$:batch'' @ LF,
             LF])" for m u
    by (simp add: request_lines_def example_request_def no_options_def stubs
        mergeHeaders_def headers_has_def headers_append_def headers_set_def same_name_def up)
  from encode_batch_changesets [OF g u, of "''B''" world_init "guids ?e" "guid_count world_init"]
  have "fst (encode_batch ?e ''B'' ''http://site'' ?reqs world_init)
      = Inr (spec_batch_text ?e ''B'' ''http://site''
          [Read_part (example_request ''GET'' ''/a''),
           Changeset_part (guids ?e (guid_count world_init))
             [example_request ''POST'' ''/b'', example_request ''POST'' ''/c''],
           Read_part (example_request ''GET'' ''/d'')])"
    by auto
  also have "\<dots> = Inr [''--batch_B'' @ LF,
            ''Content-Type: application/http'' @ LF,
            ''Content-Transfer-Encoding: binary'' @ LF @ LF,
            ''GET http://site/a HTTP/1.1'' @ LF,
            ''Accept: application/json'' @ LF,
            ''Content-Type: application/json;odata=verbose;charset=utf-8'' @ LF,
            ''X-ClientService-ClientTag: PnPCoreJS:@pnp-$$Version$$:batch'' @ LF,
            LF,
            ''--batch_B'' @ LF,
            ''Content-Type: multipart/mixed; boundary='' @ DQ @ ''changeset_guid'' @ DQ
              @ LF @ LF,
            ''--changeset_guid'' @ LF,
            ''Content-Type: application/http'' @ LF,
            ''Content-Transfer-Encoding: binary'' @ LF @ LF,
            ''POST http://site/b HTTP/1.1'' @ LF,
            ''Content-Type: application/json;odata=verbose;charset=utf-8'' @ LF,
            ''Accept: application/json'' @ LF,
            ''X-ClientService-ClientTag: PnPCoreJS:@pnp-$$Version$$:batch'' @ LF,
            LF,
            ''--changeset_guid'' @ LF,
            ''Content-Type: application/http'' @ LF,
            ''Content-Transfer-Encoding: binary'' @ LF @ LF,
            ''POST http://site/c HTTP/1.1'' @ LF,
            ''Content-Type: application/json;odata=verbose;charset=utf-8'' @ LF,
            ''Accept: application/json'' @ LF,
            ''X-ClientService-ClientTag: PnPCoreJS:@pnp-$$Version$$:batch'' @ LF,
            LF,
            ''--changeset_guid--'' @ LF @ LF,
            ''--batch_B'' @ LF,
            ''Content-Type: application/http'' @ LF,
            ''Content-Transfer-Encoding: binary'' @ LF @ LF,
            ''GET http://site/d HTTP/1.1'' @ LF,
            ''Accept: application/json'' @ LF,
            ''Content-Type: application/json;odata=verbose;charset=utf-8'' @ LF,
            ''X-ClientService-ClientTag: PnPCoreJS:@pnp-$$Version$$:batch'' @ LF,
            LF,
            ''--batch_B--'' @ LF]"
    by (simp add: spec_batch_text_def rl part_prefix_def)
       (simp add: request_url_def example_request_def stubs world_init_def)
  finally show ?thesis
    using g by simp
qed

section \<open>Properties of executeImpl\<close>

lemma settle_events:
  "index + length resps \<le> length reqs \<Longrightarrow>
     settle reqs index resps w =
       (Inr (),
        w\<lparr>events := events w @
             concat (map (\<lambda>(i, resp).
                       [Parsing i,
                        case rparse (reqs ! i) resp of
                          Inr v \<Rightarrow> Resolve i v
                        | Inl err \<Rightarrow> Reject_request i err])
                     (enumerate index resps))\<rparr>)"
proof (induction resps arbitrary: index w)
  case Nil
  then show ?case
    by simp
next
  case (Cons resp rest)
  then have "Suc index + length rest \<le> length reqs" and "index < length reqs"
    by simp_all
  with Cons.IH [of "Suc index"] show ?case
    by (simp add: Let_def split: sum.splits)
qed

text \<open>
  Claim C8. With as many decoded responses as requests, the chain handles the requests
  in their order in the batch, one after the other: the events it adds are, for the
  indices 0, 1, 2 and so on in this order, the start of the parser of request \<open>i\<close> on
  response \<open>i\<close>, immediately followed by the settlement of request \<open>i\<close>, which is its
  resolution with the parsed value or, when its parser fails, its rejection with that
  failure. Every request is settled once, whatever the parsers of the others do, and
  the chain itself succeeds.
\<close>

theorem resolve_responses_in_order:
  assumes "length resps = length reqs"
  shows "resolve_responses reqs resps w =
       (Inr (),
        w\<lparr>events := events w @
             concat (map (\<lambda>(i, resp).
                       [Parsing i,
                        case rparse (reqs ! i) resp of
                          Inr v \<Rightarrow> Resolve i v
                        | Inl err \<Rightarrow> Reject_request i err])
                     (enumerate 0 resps))\<rparr>)"
  using assms settle_events [of 0 resps reqs w]
  by (simp add: resolve_responses_def)

theorem resolve_responses_in_order_witness:
  "length [plain_response 200 ''OK'', null_body_response, plain_response 201 ''Created'']
     = length [example_request ''GET'' ''/a'', example_request ''POST'' ''/b'',
               example_request ''POST'' ''/c'']
   \<and> resolve_responses
       [example_request ''GET'' ''/a'', example_request ''POST'' ''/b'',
        example_request ''POST'' ''/c'']
       [plain_response 200 ''OK'', null_body_response, plain_response 201 ''Created'']
       world_init
     = (Inr (),
        world_init\<lparr>events :=
          [Parsing 0, Resolve 0 [], Parsing 1, Reject_request 1 (Parser_failed ''/b''),
           Parsing 2, Resolve 2 []]\<rparr>)"
proof -
  have l: "length [plain_response 200 ''OK'', null_body_response,
                   plain_response 201 ''Created'']
     = length [example_request ''GET'' ''/a'', example_request ''POST'' ''/b'',
               example_request ''POST'' ''/c'']"
    by simp
  show ?thesis
    using resolve_responses_in_order [OF l, of world_init]
    by (simp add: enumerate_eq_zip upt_rec [of 0] upt_rec [of 1] upt_rec [of 2]
        example_request_def plain_response_def null_body_response_def world_init_def)
qed

text \<open>
  Claim C9. With exactly as many decoded responses as requests the end of
  \<open>executeImpl\<close> succeeds, and a request is rejected only with the failure of its own
  parser on its own response. With any other number of responses it fails with the one
  error of the batch and leaves the world as it is: no parser has run and no request
  has been settled.
\<close>

theorem resolve_responses_count:
  "(length resps = length reqs \<longrightarrow>
      fst (resolve_responses reqs resps w) = Inr ()
      \<and> (\<forall>i err.
           Reject_request i err
             \<in> set (drop (length (events w)) (events (snd (resolve_responses reqs resps w))))
           \<longrightarrow> i < length reqs \<and> rparse (reqs ! i) (resps ! i) = Inl err))
   \<and> (length resps \<noteq> length reqs \<longrightarrow>
        resolve_responses reqs resps w = (Inl Could_not_match_responses, w))"
proof (intro conjI impI allI)
  assume l: "length resps = length reqs"
  from settle_events [of 0 resps reqs w] l
  have s: "resolve_responses reqs resps w =
       (Inr (),
        w\<lparr>events := events w @
             concat (map (\<lambda>(i, resp).
                       [Parsing i,
                        case rparse (reqs ! i) resp of
                          Inr v \<Rightarrow> Resolve i v
                        | Inl err \<Rightarrow> Reject_request i err])
                     (enumerate 0 resps))\<rparr>)"
    by (simp add: resolve_responses_def)
  then show "fst (resolve_responses reqs resps w) = Inr ()"
    by simp
  fix i err
  assume "Reject_request i err
      \<in> set (drop (length (events w)) (events (snd (resolve_responses reqs resps w))))"
  with s obtain j resp where j: "(j, resp) \<in> set (enumerate 0 resps)"
    and ev: "Reject_request i err
       \<in> {Parsing j, case rparse (reqs ! j) resp of
                        Inr v \<Rightarrow> Resolve j v
                      | Inl err \<Rightarrow> Reject_request j err}"
    by auto
  from j have "j < length resps" "resp = resps ! j"
    by (auto simp: in_set_enumerate_eq)
  with ev l show "i < length reqs" and "rparse (reqs ! i) (resps ! i) = Inl err"
    by (auto split: sum.splits)
next
  assume "length resps \<noteq> length reqs"
  then show "resolve_responses reqs resps w = (Inl Could_not_match_responses, w)"
    by (simp add: resolve_responses_def)
qed

theorem resolve_responses_count_witness:
  "fst (resolve_responses
          [example_request ''GET'' ''/a'', example_request ''POST'' ''/b'']
          [plain_response 200 ''OK'', null_body_response] world_init) = Inr ()
   \<and> resolve_responses
       [example_request ''GET'' ''/a'', example_request ''POST'' ''/b'']
       [plain_response 200 ''OK''] world_init
     = (Inl Could_not_match_responses, world_init)"
  using resolve_responses_count
      [of "[plain_response 200 ''OK'', null_body_response]"
          "[example_request ''GET'' ''/a'', example_request ''POST'' ''/b'']" world_init]
    resolve_responses_count
      [of "[plain_response 200 ''OK'']"
          "[example_request ''GET'' ''/a'', example_request ''POST'' ''/b'']" world_init]
  by simp

lemma encode_requests_succeeds:
  "\<forall>r \<in> set reqs. isUrlAbsolute e (request_url e a r) \<Longrightarrow>
     \<exists>enc' w'. encode_requests e bid a i reqs enc w = (Inr enc', w')"
proof (induction reqs arbitrary: i enc w)
  case Nil
  then show ?case
    by simp
next
  case (Cons r rs)
  obtain enc1 w1 where "open_part e bid r enc w = (enc1, w1)"
    by (cases "open_part e bid r enc w")
  with Cons.prems have "\<exists>enc2. encode_request e bid a i r enc w = (Inr enc2, w1)"
    by (simp add: encode_request_def Let_def)
  with Cons show ?case
    by auto
qed

text \<open>
  Claim C1. A batch with a request whose fetch client differs from the batch's own
  should be rejected before anything is sent. The first loop of \<open>executeImpl\<close> compares
  the fetch client of \<open>requests[0]\<close> in every iteration, so a difference in a later
  request goes unnoticed: for the batch whose request 5 names another fetch client
  than the batch and its requests 0 to 4, the check passes, the context information
  and the batch itself are sent through the transport (fetch client 1), and the call
  fails only on decoding the stub's empty answer.
\<close>

theorem executeImpl_mixed_fetch_clients_sent:
  "check_fetch_clients mixed_batch 0 (requests mixed_batch) = None
   \<and> fst (executeImpl (stub_env (context_info ''tok'' 1800) (clock_at 0)
                         (always (Fulfil (plain_response 200 ''OK''))))
            mixed_batch world_init) = Inl Unexpected_end_of_input
   \<and> map (\<lambda>x. (fst x, fst (snd x)))
        (sent (snd (executeImpl (stub_env (context_info ''tok'' 1800) (clock_at 0)
                                   (always (Fulfil (plain_response 200 ''OK''))))
                      mixed_batch world_init)))
     = [(1, ''http://site//_api/contextinfo''), (1, ''http://site/_api/$batch'')]"
proof -
  let ?e = "stub_env (context_info ''tok'' 1800) (clock_at 0) (always (Fulfil (plain_response 200 ''OK'')))"
  have c: "check_fetch_clients mixed_batch 0 (requests mixed_batch) = None"
    by (simp add: mixed_batch_def client_request_def no_options_def)
  have n: "\<not> length (requests mixed_batch) < 1"
    by (simp add: mixed_batch_def)
  have abs: "\<forall>r \<in> set (requests mixed_batch). isUrlAbsolute ?e (request_url ?e ''http://site'' r)"
    by (simp add: mixed_batch_def client_request_def example_request_def request_url_def
        stubs)
  have w: "encode_requests ?e bid a i reqs enc w = (x, w') \<Longrightarrow>
      w' = w\<lparr>guid_count := guid_count w'\<rparr>" for bid a i reqs enc w x w'
  proof (induction reqs arbitrary: i enc w)
    case Nil
    then show ?case
      by auto
  next
    case (Cons r rs)
    obtain y w1 where s: "encode_request ?e bid a i r enc w = (y, w1)"
      by (cases "encode_request ?e bid a i r enc w")
    then have w1: "w1 = w\<lparr>guid_count := guid_count w1\<rparr>"
      by (auto simp: encode_request_def open_part_def getGUID_def Let_def
          split: if_splits prod.splits)
    show ?case
    proof (cases y)
      case (Inl err)
      with Cons.prems s w1 show ?thesis
        by simp
    next
      case (Inr enc1)
      with Cons.prems s have "encode_requests ?e bid a (Suc i) rs enc1 w1 = (x, w')"
        by simp
      from Cons.IH [OF this] w1 show ?thesis
        by (metis world.surjective world.update_convs(5))
    qed
  qed
  let ?w0 = "world_init\<lparr>defaultFetchClient := Some 1\<rparr>"
  from encode_requests_succeeds [OF abs, of "''B''" 0 "\<lparr>currentChangeSetId = [], batchBody = []\<rparr>" ?w0]
  obtain enc' w1 where enc: "encode_requests ?e ''B'' ''http://site'' 0 (requests mixed_batch)
      \<lparr>currentChangeSetId = [], batchBody = []\<rparr> ?w0 = (Inr enc', w1)"
    by blast
  from w [OF enc] have w1: "w1 = ?w0\<lparr>guid_count := guid_count w1\<rparr>" .
  have up: "toUpperCase ''X-RequestDigest'' = ''X-REQUESTDIGEST''"
    "toUpperCase ''Accept'' = ''ACCEPT''"
    "toUpperCase ''Content-Type'' = ''CONTENT-TYPE''"
    "toUpperCase ''X-ClientService-ClientTag'' = ''X-CLIENTSERVICE-CLIENTTAG''"
    "toUpperCase ''Authorization'' = ''AUTHORIZATION''"
    "toUpperCase ''POST'' = ''POST''"
    by code_simp+
  have f: "fst (fetch ?e ''http://site/_api/$batch'' (batch_options ''B'' pieces)
                  (?w0\<lparr>guid_count := k\<rparr>)) = Resolved (plain_response 200 ''OK'')
      \<and> map (\<lambda>x. (fst x, fst (snd x)))
           (sent (snd (fetch ?e ''http://site/_api/$batch'' (batch_options ''B'' pieces)
                         (?w0\<lparr>guid_count := k\<rparr>))))
         = [(1, ''http://site//_api/contextinfo''), (1, ''http://site/_api/$batch'')]"
    for pieces k
    by (simp add: fetch_def batch_options_def call_options_def needs_digest_def
        call_headers_def stubs mergeHeaders_def headers_has_def headers_get_def
        headers_append_def same_name_def up getFetchClient_def getDigest_def
        getCachedDigests_def refreshDigest_def contextinfo_options_def
        assign_noOverwrite_def fetchRaw_def attempt_def retry_ctx_init_def world_init_def
        plain_response_def new_Date_def dateAdd_second_def Let_def)
  have p: "ParseResponse [] = Inl Unexpected_end_of_input"
    by code_simp
  obtain r w2 where fr: "fetch ?e ''http://site/_api/$batch''
      (batch_options ''B'' (close_batch ''B'' enc')) (?w0\<lparr>guid_count := guid_count w1\<rparr>) = (r, w2)"
    by (cases "fetch ?e ''http://site/_api/$batch''
      (batch_options ''B'' (close_batch ''B'' enc')) (?w0\<lparr>guid_count := guid_count w1\<rparr>)")
  with f [of "close_batch ''B'' enc'" "guid_count w1"]
  have r: "r = Resolved (plain_response 200 ''OK'')"
    and s: "map (\<lambda>x. (fst x, fst (snd x))) (sent w2)
         = [(1, ''http://site//_api/contextinfo''), (1, ''http://site/_api/$batch'')]"
    by simp_all
  have x: "executeImpl ?e mixed_batch world_init = (Inl Unexpected_end_of_input, w2)"
    using n enc fr r p
    apply (simp add: executeImpl_def c encode_batch_def)
    apply (subst (asm) w1)
    apply (simp add: mixed_batch_def stubs plain_response_def)
    done
  from c x s show ?thesis
    by simp
qed

end
